theory Spec2Isabelle
  imports Complex_Main "HOL-Library.Sublist"
begin

section \<open>JavaScript values and the operations the client uses on them\<close>

text \<open>
  The client is a React application written in TypeScript
  (\<^verbatim>\<open>frontend/src/App.tsx\<close> and \<^verbatim>\<open>frontend/src/components/*.tsx\<close>).
  A value that arrives untyped (\<^verbatim>\<open>error: any\<close>, \<^verbatim>\<open>design_plan: any\<close>) is a JSON value.
  JSON numbers are modelled as rationals.
\<close>

datatype jsval =
    JUndefined
  | JNull
  | JBool bool
  | JNum rat
  | JStr string
  | JArr "jsval list"
  | JObj "(string \<times> jsval) list"

text \<open>
  \<^verbatim>\<open>String.prototype.includes\<close>: \<open>includes_str s t\<close> is \<^verbatim>\<open>s.includes(t)\<close>, true when
  \<open>t\<close> occurs in \<open>s\<close> as a contiguous run of characters.
\<close>

definition includes_str :: "string \<Rightarrow> string \<Rightarrow> bool" where
  "includes_str s t = sublist t s"

text \<open>A string is truthy unless it is empty.\<close>

definition truthy_str :: "string \<Rightarrow> bool" where
  "truthy_str s = (s \<noteq> [])"

text \<open>
  \<^verbatim>\<open>Array.prototype.slice(start)\<close> with one argument: a negative \<open>start\<close> counts from the
  end and is clamped at 0, a positive one is clamped at the length. The result is a new
  array; the receiver is not changed.
\<close>

definition slice :: "int \<Rightarrow> 'a list \<Rightarrow> 'a list" where
  "slice start xs =
     (let len = int (length xs);
          k = (if start < 0 then max (len + start) 0 else min start len)
      in drop (nat k) xs)"

section \<open>The payloads of the HTTP interface (App.tsx, lines 14-57)\<close>

record AgentMessage =
  timestamp :: string
  message :: string

record DesignPlanResponse =
  plan :: string
  status :: string

record AgentStatus =
  status :: string
  current_step :: string
  steps_completed :: "string list"
  progress_percentage :: rat
  messages :: "AgentMessage list"
  errors :: "string list"

record position =
  x :: rat
  y :: rat

record FurnitureItem =
  title :: string
  price :: "string option"
  google_link :: "string option"
  direct_link :: "string option"
  source :: "string option"
  delivery :: "string option"
  product_rating :: "rat option"
  product_reviews :: "rat option"
  store_rating :: "rat option"
  store_reviews :: "rat option"
  category :: "string option"
  position :: "position option"
  image_url :: "string option"
  local_image_path :: "string option"

text \<open>The body the upload endpoint answers with (App.tsx, line 110).\<close>

record UploadResponse =
  success :: bool
  session_id :: string
  file_path :: string
  filename :: string

record FinalResults =
  session_id :: string
  original_image :: string
  designed_image :: string
  design_plan :: jsval
  total_cost_estimate :: rat
  furniture_items :: "FurnitureItem list"
  completion_time :: rat
  design_description :: string

section \<open>Requests, failures and the network\<close>

text \<open>
  A request is its method and its URL; the upload request also carries the file as a
  multipart form field named \<^verbatim>\<open>file\<close>.
\<close>

datatype request =
    GET string
  | POST string
  | POST_multipart string string
  | DELETE string

text \<open>
  What axios throws when a request fails: the error carries a response (its HTTP status
  and its body) when the server answered, and none when it did not.
\<close>

record axios_response =
  http_status :: int
  data :: jsval

datatype axios_error = AxiosError "axios_response option"

text \<open>
  The server is outside the client: each endpoint is a function from the URL (and the
  file, for the upload) to a failure or a body.
\<close>

record network =
  get_status :: "string \<Rightarrow> axios_error + AgentStatus"
  get_plan :: "string \<Rightarrow> axios_error + DesignPlanResponse"
  get_results :: "string \<Rightarrow> axios_error + FinalResults"
  post_upload :: "string \<Rightarrow> string \<Rightarrow> axios_error + UploadResponse"
  post_start :: "string \<Rightarrow> axios_error + unit"
  delete_agent :: "string \<Rightarrow> axios_error + unit"

definition upload_url :: "string \<Rightarrow> string" where
  "upload_url API_URL = API_URL @ ''/api/upload''"

definition start_url :: "string \<Rightarrow> string \<Rightarrow> string" where
  "start_url API_URL sid = API_URL @ ''/api/agent/start/'' @ sid"

definition status_url :: "string \<Rightarrow> string \<Rightarrow> string" where
  "status_url API_URL sid = API_URL @ ''/api/agent/status/'' @ sid"

definition plan_url :: "string \<Rightarrow> string \<Rightarrow> string" where
  "plan_url API_URL sid = API_URL @ ''/api/agent/plan/'' @ sid"

definition results_url :: "string \<Rightarrow> string \<Rightarrow> string" where
  "results_url API_URL sid = API_URL @ ''/api/agent/results/'' @ sid"

definition agent_url :: "string \<Rightarrow> string \<Rightarrow> string" where
  "agent_url API_URL sid = API_URL @ ''/api/agent/'' @ sid"

section \<open>The state of the App component (App.tsx, lines 59-64)\<close>

datatype toast = ToastSuccess string | ToastError string

text \<open>
  The five \<^verbatim>\<open>useState\<close> cells, and the two things outside React that the handlers
  write: the browser's \<^verbatim>\<open>localStorage\<close> and the toasts shown so far.
\<close>

record client =
  sessionId :: "string option"
  agentStatus :: "AgentStatus option"
  designPlan :: string
  finalResults :: "FinalResults option"
  isPolling :: bool
  localStorage :: "string \<rightharpoonup> string"
  toasts :: "toast list"
  console :: "string list"

text \<open>
  A handler is an async function: it returns the requests it issued, in order, whether
  its promise was fulfilled or rejected, and the state it leaves.
\<close>

datatype outcome = Fulfilled | Rejected_TypeError

type_synonym effect = "request list \<times> outcome \<times> client"

subsection \<open>The polling effect (App.tsx, lines 67-102)\<close>

text \<open>
  \<^verbatim>\<open>error.response?.data?.detail\<close>, from the body of the response: the property
  \<^verbatim>\<open>detail\<close> of an object, and \<^verbatim>\<open>undefined\<close> for a body that is null, undefined, a
  primitive or an array. A \<open>JObj\<close> lists the properties of the parsed object, each key
  once.
\<close>

definition get_detail :: "jsval \<Rightarrow> jsval" where
  "get_detail d =
     (case d of
        JObj kvs \<Rightarrow> (case map_of kvs ''detail'' of Some v \<Rightarrow> v | None \<Rightarrow> JUndefined)
      | _ \<Rightarrow> JUndefined)"

datatype js_error = TypeError

text \<open>
  \<^verbatim>\<open>detail?.includes(t)\<close>. The optional chain stops at null and undefined. A string
  answers with \<^verbatim>\<open>String.prototype.includes\<close>; an array with
  \<^verbatim>\<open>Array.prototype.includes\<close>, which looks for an element equal to \<open>t\<close>; a number,
  a boolean or an object parsed from JSON has no function \<^verbatim>\<open>includes\<close>, and the call
  throws a TypeError.
\<close>

definition optional_includes :: "jsval \<Rightarrow> string \<Rightarrow> js_error + bool" where
  "optional_includes d t =
     (case d of
        JUndefined \<Rightarrow> Inr False
      | JNull \<Rightarrow> Inr False
      | JStr s \<Rightarrow> Inr (includes_str s t)
      | JArr vs \<Rightarrow> Inr (JStr t \<in> set vs)
      | _ \<Rightarrow> Inl TypeError)"

text \<open>
  The condition of line 91:
  \<^verbatim>\<open>error.response?.status === 404 || error.response?.data?.detail?.includes('not found')\<close>.
  The right operand is evaluated only when the left one is false.
\<close>

definition session_not_found :: "axios_error \<Rightarrow> js_error + bool" where
  "session_not_found e =
     (case e of
        AxiosError None \<Rightarrow> Inr False
      | AxiosError (Some r) \<Rightarrow>
          if http_status r = 404 then Inr True
          else optional_includes (get_detail (data r)) ''not found'')"

text \<open>The catch block (lines 88-97). A TypeError thrown inside it rejects the promise.\<close>

definition poll_catch :: "axios_error \<Rightarrow> client \<Rightarrow> outcome \<times> client" where
  "poll_catch e c =
     (let c1 = c\<lparr>console := console c @ [''Polling error:'']\<rparr> in
      case session_not_found e of
        Inl TypeError \<Rightarrow> (Rejected_TypeError, c1)
      | Inr True \<Rightarrow>
          (Fulfilled,
           c1\<lparr>localStorage := (localStorage c1)(''designSessionId'' := None),
              sessionId := None,
              isPolling := False,
              toasts := toasts c1 @ [ToastError ''Session expired. Please upload a new image.'']\<rparr>)
      | Inr False \<Rightarrow> (Fulfilled, c1))"

text \<open>
  One run of the interval callback (lines 69-98), for the session id \<open>sid\<close> that the
  effect closed over. The requests are awaited one after the other; the first one that
  fails ends the \<^verbatim>\<open>try\<close> block.
\<close>

definition poll_tick :: "string \<Rightarrow> network \<Rightarrow> string \<Rightarrow> client \<Rightarrow> effect" where
  "poll_tick API_URL net sid c =
     (case get_status net (status_url API_URL sid) of
        Inl e \<Rightarrow>
          (let (out, c') = poll_catch e c in ([GET (status_url API_URL sid)], out, c'))
      | Inr statusRes \<Rightarrow>
          (let c1 = c\<lparr>agentStatus := Some statusRes\<rparr> in
           case get_plan net (plan_url API_URL sid) of
             Inl e \<Rightarrow>
               (let (out, c') = poll_catch e c1
                in ([GET (status_url API_URL sid), GET (plan_url API_URL sid)], out, c'))
           | Inr planRes \<Rightarrow>
               (let c2 = c1\<lparr>designPlan := plan planRes\<rparr> in
                if status statusRes = ''completed'' then
                  (case get_results net (results_url API_URL sid) of
                     Inl e \<Rightarrow>
                       (let (out, c') = poll_catch e c2
                        in ([GET (status_url API_URL sid), GET (plan_url API_URL sid),
                             GET (results_url API_URL sid)], out, c'))
                   | Inr resultsRes \<Rightarrow>
                       ([GET (status_url API_URL sid), GET (plan_url API_URL sid),
                         GET (results_url API_URL sid)],
                        Fulfilled,
                        c2\<lparr>finalResults := Some resultsRes,
                           isPolling := False,
                           toasts := toasts c2 @ [ToastSuccess ''Design completed!'']\<rparr>))
                else if status statusRes = ''error'' then
                  ([GET (status_url API_URL sid), GET (plan_url API_URL sid)],
                   Fulfilled,
                   c2\<lparr>isPolling := False,
                      toasts := toasts c2 @ [ToastError ''Agent encountered an error'']\<rparr>)
                else
                  ([GET (status_url API_URL sid), GET (plan_url API_URL sid)],
                   Fulfilled, c2))))"

text \<open>
  The interval exists while \<^verbatim>\<open>sessionId && isPolling\<close> holds (line 68): the session
  id is neither null nor empty, and the flag is set.
\<close>

definition polling_active :: "client \<Rightarrow> bool" where
  "polling_active c =
     (case sessionId c of None \<Rightarrow> False | Some sid \<Rightarrow> truthy_str sid \<and> isPolling c)"

subsection \<open>handleUpload (App.tsx, lines 104-129)\<close>

definition handleUpload :: "string \<Rightarrow> network \<Rightarrow> string \<Rightarrow> client \<Rightarrow> effect" where
  "handleUpload API_URL net file c =
     (case post_upload net (upload_url API_URL) file of
        Inl e \<Rightarrow>
          ([POST_multipart (upload_url API_URL) file],
           Fulfilled,
           c\<lparr>console := console c @ [''Upload error:''],
             toasts := toasts c @ [ToastError ''Failed to upload image'']\<rparr>)
      | Inr uploadRes \<Rightarrow>
          (let newSessionId = UploadResponse.session_id uploadRes;
               c1 = c\<lparr>sessionId := Some newSessionId\<rparr>
           in case post_start net (start_url API_URL newSessionId) of
                Inl e \<Rightarrow>
                  ([POST_multipart (upload_url API_URL) file,
                    POST (start_url API_URL newSessionId)],
                   Fulfilled,
                   c1\<lparr>console := console c1 @ [''Upload error:''],
                      toasts := toasts c1 @ [ToastError ''Failed to upload image'']\<rparr>)
              | Inr u \<Rightarrow>
                  ([POST_multipart (upload_url API_URL) file,
                    POST (start_url API_URL newSessionId)],
                   Fulfilled,
                   c1\<lparr>isPolling := True,
                      toasts := toasts c1 @ [ToastSuccess ''Agent started! Analyzing your room...'']\<rparr>)))"

subsection \<open>resetAgent (App.tsx, lines 131-144)\<close>

text \<open>
  The DELETE is issued when \<^verbatim>\<open>sessionId\<close> is truthy (neither null nor the empty
  string); its failure is caught and only logged to the console.
\<close>

definition resetAgent :: "string \<Rightarrow> network \<Rightarrow> client \<Rightarrow> effect" where
  "resetAgent API_URL net c =
     (let (issued, c1) =
            (case sessionId c of
               None \<Rightarrow> ([], c)
             | Some sid \<Rightarrow>
                 if truthy_str sid
                 then (case delete_agent net (agent_url API_URL sid) of
                         Inl e \<Rightarrow> ([DELETE (agent_url API_URL sid)],
                                   c\<lparr>console := console c @ [''Reset error:'']\<rparr>)
                       | Inr u \<Rightarrow> ([DELETE (agent_url API_URL sid)], c))
                 else ([], c))
      in (issued, Fulfilled,
          c1\<lparr>sessionId := None, agentStatus := None, designPlan := [],
             finalResults := None, isPolling := False\<rparr>))"

section \<open>What the components render\<close>

text \<open>
  The tree a component returns. An element has a tag, a class name and children; the
  animation properties of the \<^verbatim>\<open>motion\<close> elements and the list keys are left out.
  A child that is null, undefined or a boolean renders nothing (\<open>Empty\<close>), as does an
  empty string. A function as a child renders nothing either (React only warns); an
  object that is not an element makes React throw. Text that is not ASCII is written as
  its code point, \<^verbatim>\<open>U+23F3\<close> for the hourglass.
\<close>

datatype node =
    El string string "node list"
  | Img "jsval list" jsval \<comment> \<open>the parts of the template literal of src, and alt\<close>
  | Link jsval "node list" \<comment> \<open>href, children\<close>
  | Bar rat \<comment> \<open>the progress bar, animated to this width in percent\<close>
  | Txt string
  | Num rat
  | Fixed nat rat \<comment> \<open>the text of \<^verbatim>\<open>x.toFixed(n)\<close>\<close>
  | LocaleTime string \<comment> \<open>the text of \<^verbatim>\<open>new Date(t).toLocaleTimeString()\<close>\<close>
  | Empty
  | FunChild
  | ObjChild

datatype react_error = Objects_are_not_valid_as_a_React_child

fun renderable :: "node \<Rightarrow> bool" where
  "renderable (El tag cls children) = (\<forall>ch \<in> set children. renderable ch)"
| "renderable (Link href children) = (\<forall>ch \<in> set children. renderable ch)"
| "renderable ObjChild = False"
| "renderable n = True"

definition react_render :: "node \<Rightarrow> react_error + node" where
  "react_render n = (if renderable n then Inr n else Inl Objects_are_not_valid_as_a_React_child)"

subsection \<open>Property lookup on an object literal\<close>

text \<open>
  \<^verbatim>\<open>statusEmoji[status.status]\<close> reads a property of an object literal: an own property
  when the key is one, and otherwise what the object inherits from
  \<^verbatim>\<open>Object.prototype\<close>, whose standard properties are functions, except the accessor
  \<^verbatim>\<open>__proto__\<close>, which answers with the prototype object itself.
\<close>

datatype propval = PStr string | PFunction | PObject | PUndefined

definition Object_prototype :: "(string \<times> propval) list" where
  "Object_prototype =
     [(''constructor'', PFunction),
      (''hasOwnProperty'', PFunction),
      (''isPrototypeOf'', PFunction),
      (''propertyIsEnumerable'', PFunction),
      (''toLocaleString'', PFunction),
      (''toString'', PFunction),
      (''valueOf'', PFunction),
      (''__defineGetter__'', PFunction),
      (''__defineSetter__'', PFunction),
      (''__lookupGetter__'', PFunction),
      (''__lookupSetter__'', PFunction),
      (''__proto__'', PObject)]"

definition get_property :: "(string \<times> string) list \<Rightarrow> string \<Rightarrow> propval" where
  "get_property obj k =
     (case map_of obj k of
        Some v \<Rightarrow> PStr v
      | None \<Rightarrow> (case map_of Object_prototype k of Some p \<Rightarrow> p | None \<Rightarrow> PUndefined))"

text \<open>\<^verbatim>\<open>v || d\<close>: the default is taken when \<open>v\<close> is undefined or the empty string.\<close>

definition or_default :: "propval \<Rightarrow> string \<Rightarrow> propval" where
  "or_default v d =
     (case v of
        PUndefined \<Rightarrow> PStr d
      | PStr s \<Rightarrow> if truthy_str s then PStr s else PStr d
      | PFunction \<Rightarrow> PFunction
      | PObject \<Rightarrow> PObject)"

definition child_of :: "propval \<Rightarrow> node" where
  "child_of v =
     (case v of PStr s \<Rightarrow> Txt s | PFunction \<Rightarrow> FunChild | PObject \<Rightarrow> ObjChild
      | PUndefined \<Rightarrow> Empty)"

subsection \<open>AgentProgress (components/AgentProgress.tsx)\<close>

definition statusEmoji :: "(string \<times> string) list" where
  "statusEmoji =
     [(''idle'', ''U+1F4A4''),
      (''analyzing'', ''U+1F50D''),
      (''planning'', ''U+1F4DD''),
      (''shopping'', ''U+1F6CD U+FE0F''),
      (''designing'', ''U+1F3A8''),
      (''completed'', ''U+2705''),
      (''error'', ''U+274C'')]"

definition hourglass :: string where
  "hourglass = ''U+23F3''"

text \<open>Line 46: \<^verbatim>\<open>statusEmoji[status.status] || hourglass\<close>, as the child of the span.\<close>

definition status_emoji :: "string \<Rightarrow> node" where
  "status_emoji s = child_of (or_default (get_property statusEmoji s) hourglass)"

text \<open>Lines 79-92: the activity log shows \<^verbatim>\<open>status.messages.slice(-5)\<close>.\<close>

definition message_item :: "AgentMessage \<Rightarrow> node" where
  "message_item msg =
     El ''div'' ''message-item''
       [El ''span'' ''message-time'' [LocaleTime (timestamp msg)],
        El ''span'' ''message-text'' [Txt (message msg)]]"

definition activity_log :: "AgentStatus \<Rightarrow> node list" where
  "activity_log st = map message_item (slice (- 5) (messages st))"

text \<open>Lines 96-105: \<^verbatim>\<open>status.errors.length > 0 && (...)\<close>.\<close>

definition errors_section :: "AgentStatus \<Rightarrow> node" where
  "errors_section st =
     (if length (errors st) > 0
      then El ''div'' ''errors-section''
             (El ''h4'' [] [Txt ''Errors:'']
              # map (\<lambda>error. El ''div'' ''error-item'' [Txt ''U+26A0 U+FE0F '', Txt error])
                  (errors st))
      else Empty)"

definition AgentProgress :: "AgentStatus option \<Rightarrow> node" where
  "AgentProgress props =
     (case props of
        None \<Rightarrow>
          El ''div'' ''agent-progress'' [El ''h2'' [] [Txt ''Waiting for agent to start...'']]
      | Some st \<Rightarrow>
          El ''div'' ''agent-progress''
            [El ''h2'' [] [Txt ''Agent Progress''],
             El ''div'' ''status-header''
               [El ''span'' ''status-emoji'' [status_emoji (status st)],
                El ''h3'' [] [Txt (current_step st)]],
             El ''div'' ''progress-bar-container''
               [Bar (progress_percentage st),
                El ''span'' ''progress-text''
                  [Num (of_int (round (progress_percentage st))), Txt ''%'']],
             El ''div'' ''steps-list''
               [El ''h4'' [] [Txt ''Steps Completed:''],
                El ''ul'' []
                  (map (\<lambda>step. El ''li'' [] [Txt ''U+2713 '', Txt step]) (steps_completed st))],
             El ''div'' ''messages-log''
               [El ''h4'' [] [Txt ''Activity Log:''],
                El ''div'' ''messages-container'' (activity_log st)],
             errors_section st])"

subsection \<open>The messages array on the heap\<close>




subsection \<open>ResultsSection (components/ResultsSection.tsx)\<close>

text \<open>
  A furniture item as it arrives in the results payload: a JSON object in which a
  nullable field of the interface (lines 6-21) that has no value is \<^verbatim>\<open>null\<close>. The
  field \<^verbatim>\<open>title\<close> is typed \<^verbatim>\<open>string\<close> and is always a string.
\<close>

definition nullable :: "('a \<Rightarrow> jsval) \<Rightarrow> 'a option \<Rightarrow> jsval" where
  "nullable f v = (case v of None \<Rightarrow> JNull | Some a \<Rightarrow> f a)"

definition item_value :: "FurnitureItem \<Rightarrow> jsval" where
  "item_value item =
     JObj
       [(''title'', JStr (title item)),
        (''price'', nullable JStr (price item)),
        (''google_link'', nullable JStr (google_link item)),
        (''direct_link'', nullable JStr (direct_link item)),
        (''source'', nullable JStr (source item)),
        (''delivery'', nullable JStr (delivery item)),
        (''product_rating'', nullable JNum (product_rating item)),
        (''product_reviews'', nullable JNum (product_reviews item)),
        (''store_rating'', nullable JNum (store_rating item)),
        (''store_reviews'', nullable JNum (store_reviews item)),
        (''category'', nullable JStr (category item)),
        (''position'',
           nullable (\<lambda>p. JObj [(''x'', JNum (x p)), (''y'', JNum (y p))]) (position item)),
        (''image_url'', nullable JStr (image_url item)),
        (''local_image_path'', nullable JStr (local_image_path item))]"

text \<open>
  \<^verbatim>\<open>v.k\<close>: reading a property of null or undefined throws a TypeError; an object
  answers with its property, and with undefined when it has none of that name, as does
  a primitive or an array for a name that is none of its methods.
\<close>

definition get_member :: "jsval \<Rightarrow> string \<Rightarrow> js_error + jsval" where
  "get_member v k =
     (case v of
        JUndefined \<Rightarrow> Inl TypeError
      | JNull \<Rightarrow> Inl TypeError
      | JObj kvs \<Rightarrow> Inr (case map_of kvs k of Some w \<Rightarrow> w | None \<Rightarrow> JUndefined)
      | _ \<Rightarrow> Inr JUndefined)"

text \<open>What is evaluated next runs only when what came before did not throw.\<close>

definition and_then :: "js_error + 'a \<Rightarrow> ('a \<Rightarrow> js_error + 'b) \<Rightarrow> js_error + 'b" where
  "and_then r f = (case r of Inl e \<Rightarrow> Inl e | Inr a \<Rightarrow> f a)"

text \<open>Truthiness: undefined, null, false, 0 and the empty string are falsy.\<close>

definition truthy :: "jsval \<Rightarrow> bool" where
  "truthy v =
     (case v of
        JUndefined \<Rightarrow> False
      | JNull \<Rightarrow> False
      | JBool b \<Rightarrow> b
      | JNum n \<Rightarrow> n \<noteq> 0
      | JStr s \<Rightarrow> truthy_str s
      | JArr vs \<Rightarrow> True
      | JObj kvs \<Rightarrow> True)"

text \<open>
  A value as a child of an element: null, undefined and booleans render nothing, a
  number and a string render as text, an array renders its elements (an element with
  no tag), and any other object is not a valid child.
\<close>

fun child_of_value :: "jsval \<Rightarrow> node" where
  "child_of_value JUndefined = Empty"
| "child_of_value JNull = Empty"
| "child_of_value (JBool b) = Empty"
| "child_of_value (JNum n) = Num n"
| "child_of_value (JStr s) = Txt s"
| "child_of_value (JArr vs) = El [] [] (map child_of_value vs)"
| "child_of_value (JObj kvs) = ObjChild"

text \<open>\<^verbatim>\<open>v && element\<close> as a child: the element when \<open>v\<close> is truthy, and \<open>v\<close> itself otherwise.\<close>

definition js_and :: "jsval \<Rightarrow> node \<Rightarrow> node" where
  "js_and v element = (if truthy v then element else child_of_value v)"

text \<open>\<^verbatim>\<open>v || d\<close>.\<close>

definition js_or :: "jsval \<Rightarrow> jsval \<Rightarrow> jsval" where
  "js_or v d = (if truthy v then v else d)"

text \<open>
  Lines 87-134: the card of one furniture item. Every field is read from \<^verbatim>\<open>item\<close>,
  in the order in which the source first mentions it. The \<^verbatim>\<open>onError\<close> handler of the
  image, which hides an image that fails to load, is left out.
\<close>

definition furniture_card :: "string \<Rightarrow> jsval \<Rightarrow> js_error + node" where
  "furniture_card API_URL item =
     and_then (get_member item ''image_url'') (\<lambda>image_url.
     and_then (get_member item ''title'') (\<lambda>title.
     and_then (get_member item ''source'') (\<lambda>source.
     and_then (get_member item ''category'') (\<lambda>category.
     and_then (get_member item ''price'') (\<lambda>price.
     and_then (get_member item ''product_rating'') (\<lambda>product_rating.
     and_then (get_member item ''product_reviews'') (\<lambda>product_reviews.
     and_then (get_member item ''delivery'') (\<lambda>delivery.
     and_then (get_member item ''google_link'') (\<lambda>google_link.
       Inr (El ''div'' ''furniture-card''
         [js_and image_url
            (El ''div'' ''furniture-image'' [Img [JStr API_URL, image_url] title]),
          El ''h4'' [] [child_of_value title],
          js_and source (El ''p'' ''furniture-source'' [Txt ''from '', child_of_value source]),
          js_and category (El ''p'' ''furniture-category'' [child_of_value category]),
          js_and price (El ''p'' ''furniture-price'' [child_of_value price]),
          js_and product_rating
            (El ''p'' ''furniture-rating''
               [child_of_value product_rating, Txt ''U+2B50 ('',
                child_of_value (js_or product_reviews (JNum 0)), Txt '' reviews)'']),
          js_and delivery (El ''p'' ''furniture-delivery'' [child_of_value delivery]),
          js_and google_link
            (Link google_link [Txt ''View on Google Shopping U+2192''])]))))))))))"

text \<open>The children of the card, when it was built.\<close>

definition card_children :: "js_error + node \<Rightarrow> node list" where
  "card_children r = (case r of Inr (El tag cls children) \<Rightarrow> children | _ \<Rightarrow> [])"

text \<open>
  \<^verbatim>\<open>items.map(f)\<close> when \<open>f\<close> may throw: the results in order, or the first error.
\<close>

fun map_throwing :: "('a \<Rightarrow> js_error + 'b) \<Rightarrow> 'a list \<Rightarrow> js_error + 'b list" where
  "map_throwing f [] = Inr []"
| "map_throwing f (a # as) =
     and_then (f a) (\<lambda>b. and_then (map_throwing f as) (\<lambda>bs. Inr (b # bs)))"

text \<open>Lines 85-136: one card for each item of the payload.\<close>

definition furniture_grid :: "string \<Rightarrow> jsval list \<Rightarrow> js_error + node" where
  "furniture_grid API_URL items =
     and_then (map_throwing (furniture_card API_URL) items)
       (\<lambda>cards. Inr (El ''div'' ''furniture-grid'' cards))"

definition ResultsSection :: "string \<Rightarrow> FinalResults \<Rightarrow> js_error + node" where
  "ResultsSection API_URL results =
     and_then (furniture_grid API_URL (map item_value (furniture_items results)))
       (\<lambda>grid.
     Inr (El ''div'' ''results-section''
       [El ''h2'' [] [Txt ''Final Design Results''],
        El ''div'' ''image-comparison''
          [El ''div'' ''image-container''
             [El ''h3'' [] [Txt ''Original Room''],
              Img [JStr API_URL, JStr (original_image results)] (JStr ''Original room'')],
           El ''div'' ''image-container''
             [El ''h3'' [] [Txt ''Designed Room''],
              Img [JStr API_URL, JStr (designed_image results)] (JStr ''Designed room'')]],
        El ''div'' ''design-stats''
          [El ''div'' ''stat-item''
             [El ''h4'' [] [Txt ''Total Cost Estimate''],
              El ''p'' ''stat-value'' [Txt ''$'', Fixed 2 (total_cost_estimate results)]],
           El ''div'' ''stat-item''
             [El ''h4'' [] [Txt ''Items Selected''],
              El ''p'' ''stat-value'' [Num (of_nat (length (furniture_items results)))]],
           El ''div'' ''stat-item''
             [El ''h4'' [] [Txt ''Design Time''],
              El ''p'' ''stat-value'' [Fixed 1 (completion_time results), Txt ''s'']]],
        El ''div'' ''furniture-list''
          [El ''h3'' [] [Txt ''Selected Furniture''], grid]]))"

text \<open>The item whose nullable fields are all null.\<close>

definition null_item :: "string \<Rightarrow> FurnitureItem" where
  "null_item t =
     \<lparr>title = t, price = None, google_link = None, direct_link = None, source = None,
      delivery = None, product_rating = None, product_reviews = None, store_rating = None,
      store_reviews = None, category = None, position = None, image_url = None,
      local_image_path = None\<rparr>"

text \<open>
  A payload item that does not follow the interface: its price is an object, and the
  other nullable fields are missing.
\<close>

definition price_object_item :: jsval where
  "price_object_item =
     JObj [(''title'', JStr ''Desk''),
           (''price'', JObj [(''amount'', JNum 120), (''currency'', JStr ''USD'')])]"

section \<open>The session state machine\<close>

text \<open>
  Modelled from the spec: the session states of section 3 and the terminal states of
  section 4.2. The backend that owns them (\<^verbatim>\<open>backend/main.py\<close>, \<^verbatim>\<open>backend/agent.py\<close>)
  is not among the sources; the client only sees a state by its name in the
  \<^verbatim>\<open>status\<close> field.
\<close>

datatype session_state =
  Idle | Analyzing | Planning | Shopping | Designing | Completed | Error

definition terminal :: "session_state \<Rightarrow> bool" where
  "terminal st = (st = Completed \<or> st = Error)"

fun state_name :: "session_state \<Rightarrow> string" where
  "state_name Idle = ''Idle''"
| "state_name Analyzing = ''Analyzing''"
| "state_name Planning = ''Planning''"
| "state_name Shopping = ''Shopping''"
| "state_name Designing = ''Designing''"
| "state_name Completed = ''Completed''"
| "state_name Error = ''Error''"

text \<open>
  The client spells the states in lower case (the keys of \<^verbatim>\<open>statusEmoji\<close>, the
  literals of the polling effect): \<^verbatim>\<open>String.prototype.toLowerCase\<close> on ASCII letters.
\<close>

definition toLowerCase :: "string \<Rightarrow> string" where
  "toLowerCase s =
     map (\<lambda>ch. if 65 \<le> (of_char ch :: nat) \<and> (of_char ch :: nat) \<le> 90
               then char_of ((of_char ch :: nat) + 32) else ch) s"

definition wire_name :: "session_state \<Rightarrow> string" where
  "wire_name st = toLowerCase (state_name st)"

text \<open>
  Modelled from the spec: the orchestrator of section 4.2, which is not among the
  sources. A session holds the fields of section 3; a stage executor is an external
  call, so each stage execution is given its result (an output or an error description)
  and the time at which it ran.
\<close>

datatype stage = Analyze | Plan | Shop | Design

record session =
  sess_id :: string
  sess_status :: session_state
  sess_current_step :: string
  sess_steps_completed :: "string list"
  sess_progress_percentage :: nat
  sess_messages :: "(nat \<times> string) list"
  sess_errors :: "string list"
  sess_design_plan :: "string option"
  sess_results :: "string option"
  sess_image_ref :: string

datatype stage_result = Succeeded string | Failed string

datatype orchestrator_error = AlreadyStarted

fun stage_name :: "stage \<Rightarrow> string" where
  "stage_name Analyze = ''analyze''"
| "stage_name Plan = ''plan''"
| "stage_name Shop = ''shop''"
| "stage_name Design = ''design''"

text \<open>Modelled from the spec: the fixed weight table, Analyze=25, Plan=50, Shop=75, Design=100.\<close>

fun stage_target :: "stage \<Rightarrow> nat" where
  "stage_target Analyze = 25"
| "stage_target Plan = 50"
| "stage_target Shop = 75"
| "stage_target Design = 100"

text \<open>
  Modelled from the spec: the stage a state runs; \<open>Idle\<close> and the terminal states run
  none, and each stage hands over to the next state of the pipeline.
\<close>

fun active_stage :: "session_state \<Rightarrow> stage option" where
  "active_stage Analyzing = Some Analyze"
| "active_stage Planning = Some Plan"
| "active_stage Shopping = Some Shop"
| "active_stage Designing = Some Design"
| "active_stage st = None"

fun next_state :: "stage \<Rightarrow> session_state" where
  "next_state Analyze = Planning"
| "next_state Plan = Shopping"
| "next_state Shop = Designing"
| "next_state Design = Completed"

text \<open>Modelled from the spec: session creation by the upload, status \<open>Idle\<close>, nothing done yet.\<close>

definition create_session :: "string \<Rightarrow> string \<Rightarrow> session" where
  "create_session sid img =
     \<lparr>sess_id = sid, sess_status = Idle, sess_current_step = [],
      sess_steps_completed = [], sess_progress_percentage = 0, sess_messages = [],
      sess_errors = [], sess_design_plan = None, sess_results = None,
      sess_image_ref = img\<rparr>"

text \<open>
  Modelled from the spec: \<^verbatim>\<open>start\<close> fails with \<open>AlreadyStarted\<close> when the session is past \<open>Idle\<close>, and
  otherwise moves it to \<open>Analyzing\<close>.
\<close>

definition start :: "session \<Rightarrow> orchestrator_error + session" where
  "start s =
     (if sess_status s = Idle
      then Inr (s\<lparr>sess_status := Analyzing, sess_current_step := stage_name Analyze\<rparr>)
      else Inl AlreadyStarted)"

text \<open>Modelled from the spec: the fields a stage's output is merged into.\<close>

definition merge_output :: "stage \<Rightarrow> string \<Rightarrow> session \<Rightarrow> session" where
  "merge_output stg out s =
     (case stg of
        Plan \<Rightarrow> s\<lparr>sess_design_plan := Some out\<rparr>
      | Design \<Rightarrow> s\<lparr>sess_results := Some out\<rparr>
      | _ \<Rightarrow> s)"

text \<open>
  Modelled from the spec: per-stage execution (steps 1 to 4 of section 4.2) at time \<open>now\<close>, with the result
  \<open>res\<close> of the stage executor. A session that is \<open>Idle\<close>, \<open>Completed\<close> or \<open>Error\<close>
  has no stage to execute.
\<close>

definition run_stage :: "nat \<times> stage_result \<Rightarrow> session \<Rightarrow> session" where
  "run_stage ev s =
     (case active_stage (sess_status s) of
        None \<Rightarrow> s
      | Some stg \<Rightarrow>
          (let now = fst ev;
               s1 = s\<lparr>sess_messages := sess_messages s @ [(now, ''starting '' @ stage_name stg)]\<rparr>
           in case snd ev of
                Succeeded out \<Rightarrow>
                  (merge_output stg out s1)
                    \<lparr>sess_steps_completed := sess_steps_completed s1 @ [stage_name stg],
                     sess_progress_percentage := stage_target stg,
                     sess_messages := sess_messages s1 @ [(now, ''completed '' @ stage_name stg)],
                     sess_status := next_state stg,
                     sess_current_step :=
                       (case active_stage (next_state stg) of
                          Some nxt \<Rightarrow> stage_name nxt
                        | None \<Rightarrow> stage_name stg)\<rparr>
              | Failed err \<Rightarrow>
                  s1\<lparr>sess_errors := sess_errors s1 @ [err],
                     sess_status := Error,
                     sess_messages := sess_messages s1 @ [(now, ''failed '' @ stage_name stg)]\<rparr>))"

text \<open>
  Modelled from the spec: the states a poller can read while the task works through the executor results
  \<open>evs\<close>: the state before each stage execution and the state after the last one.
\<close>

fun snapshots :: "session \<Rightarrow> (nat \<times> stage_result) list \<Rightarrow> session list" where
  "snapshots s [] = [s]"
| "snapshots s (ev # evs) = s # snapshots (run_stage ev s) evs"

text \<open>
  Modelled from the spec: the progress a session has when it enters a state, which is
  the target of the stage finished last. A session is on track when it has failed or
  its progress is that of its state.
\<close>

fun entry_progress :: "session_state \<Rightarrow> nat" where
  "entry_progress Idle = 0"
| "entry_progress Analyzing = 0"
| "entry_progress Planning = 25"
| "entry_progress Shopping = 50"
| "entry_progress Designing = 75"
| "entry_progress Completed = 100"
| "entry_progress Error = 0"

definition on_track :: "session \<Rightarrow> bool" where
  "on_track s =
     (sess_status s = Error \<or> sess_progress_percentage s = entry_progress (sess_status s))"

section \<open>Reading a polling tick\<close>

text \<open>The HTTP status and the \<^verbatim>\<open>detail\<close> of a failure, when it carries a response.\<close>

definition response_status :: "axios_error \<Rightarrow> int option" where
  "response_status e =
     (case e of AxiosError None \<Rightarrow> None | AxiosError (Some r) \<Rightarrow> Some (http_status r))"

definition response_detail :: "axios_error \<Rightarrow> jsval" where
  "response_detail e =
     (case e of AxiosError None \<Rightarrow> JUndefined | AxiosError (Some r) \<Rightarrow> get_detail (data r))"

definition detail_string :: "axios_error \<Rightarrow> string option" where
  "detail_string e = (case response_detail e of JStr s \<Rightarrow> Some s | _ \<Rightarrow> None)"

definition detail_array :: "axios_error \<Rightarrow> jsval list option" where
  "detail_array e = (case response_detail e of JArr vs \<Rightarrow> Some vs | _ \<Rightarrow> None)"

text \<open>
  The failure a tick ends with: that of the first request that fails, among the status
  request, the plan request and, when the status is \<^verbatim>\<open>'completed'\<close>, the results
  request.
\<close>

definition first_failure :: "string \<Rightarrow> network \<Rightarrow> string \<Rightarrow> axios_error option" where
  "first_failure API_URL net sid =
     (case get_status net (status_url API_URL sid) of
        Inl e \<Rightarrow> Some e
      | Inr statusRes \<Rightarrow>
          (case get_plan net (plan_url API_URL sid) of
             Inl e \<Rightarrow> Some e
           | Inr planRes \<Rightarrow>
               if status statusRes = ''completed''
               then (case get_results net (results_url API_URL sid) of
                       Inl e \<Rightarrow> Some e | Inr r \<Rightarrow> None)
               else None))"

section \<open>Concrete clients and servers\<close>

definition api :: string where
  "api = ''http://localhost:8000''"

definition fresh_client :: client where
  "fresh_client =
     \<lparr>sessionId = None, agentStatus = None, designPlan = [], finalResults = None,
      isPolling = False, localStorage = Map.empty, toasts = [], console = []\<rparr>"

definition polling_client :: client where
  "polling_client = fresh_client\<lparr>sessionId := Some ''s1'', isPolling := True\<rparr>"

definition http_failure :: "int \<Rightarrow> jsval \<Rightarrow> axios_error" where
  "http_failure code body = AxiosError (Some \<lparr>http_status = code, data = body\<rparr>)"

definition status_of :: "string \<Rightarrow> AgentStatus" where
  "status_of s =
     \<lparr>status = s, current_step = ''step'', steps_completed = [], progress_percentage = 0,
      messages = [], errors = []\<rparr>"

definition some_results :: FinalResults where
  "some_results =
     \<lparr>session_id = ''s1'', original_image = ''/uploads/a.png'',
      designed_image = ''/uploads/b.png'', design_plan = JNull, total_cost_estimate = 0,
      furniture_items = [], completion_time = 1, design_description = []\<rparr>"

text \<open>A server on which every request succeeds, reporting the status \<open>s\<close>.\<close>

definition server_ok :: "string \<Rightarrow> network" where
  "server_ok s =
     \<lparr>get_status = (\<lambda>url. Inr (status_of s)),
      get_plan = (\<lambda>url. Inr \<lparr>plan = ''# Plan'', DesignPlanResponse.status = s\<rparr>),
      get_results = (\<lambda>url. Inr some_results),
      post_upload = (\<lambda>url file.
        Inr \<lparr>success = True, UploadResponse.session_id = ''s1'',
             file_path = ''uploads/a.png'', filename = ''a.png''\<rparr>),
      post_start = (\<lambda>url. Inr ()),
      delete_agent = (\<lambda>url. Inr ())\<rparr>"

text \<open>A server on which every request fails with the error \<open>e\<close>.\<close>

definition server_failing :: "axios_error \<Rightarrow> network" where
  "server_failing e =
     \<lparr>get_status = (\<lambda>url. Inl e), get_plan = (\<lambda>url. Inl e), get_results = (\<lambda>url. Inl e),
      post_upload = (\<lambda>url file. Inl e), post_start = (\<lambda>url. Inl e),
      delete_agent = (\<lambda>url. Inl e)\<rparr>"

text \<open>
  A server that reports the status \<open>s\<close> and whose plan request fails with the error
  \<open>e\<close>; its other requests succeed.
\<close>

definition server_plan_failing :: "string \<Rightarrow> axios_error \<Rightarrow> network" where
  "server_plan_failing s e = (server_ok s)\<lparr>get_plan := (\<lambda>url. Inl e)\<rparr>"

text \<open>A server that accepts the upload and refuses to start the agent.\<close>

definition server_start_failing :: "axios_error \<Rightarrow> network" where
  "server_start_failing e = (server_ok ''idle'')\<lparr>post_start := (\<lambda>url. Inl e)\<rparr>"



text \<open>Results with two items: one with every nullable field null, one fully described.\<close>

definition sofa :: FurnitureItem where
  "sofa =
     \<lparr>title = ''Sofa'', price = Some ''$499.00'', google_link = Some ''https://g.example/sofa'',
      direct_link = None, source = Some ''Shop'', delivery = Some ''Free delivery'',
      product_rating = Some 4, product_reviews = None, store_rating = None,
      store_reviews = None, category = Some ''seating'', position = Some \<lparr>x = 1, y = 2\<rparr>,
      image_url = Some ''/images/sofa.png'', local_image_path = None\<rparr>"

definition two_item_results :: FinalResults where
  "two_item_results = some_results\<lparr>furniture_items := [null_item ''Lamp'', sofa]\<rparr>"

text \<open>
  A session that was created and started, executor results under which the third stage
  fails, and the session after that failure.
\<close>

definition started_session :: session where
  "started_session =
     (create_session ''s1'' ''a.png'')
       \<lparr>sess_status := Analyzing, sess_current_step := stage_name Analyze\<rparr>"

definition failing_run :: "(nat \<times> stage_result) list" where
  "failing_run =
     [(1, Succeeded ''empty living room''), (2, Succeeded ''# Plan''),
      (3, Failed ''timeout in shop''), (4, Succeeded ''late answer'')]"

definition failed_session :: session where
  "failed_session =
     run_stage (3, Failed ''timeout in shop'')
       (run_stage (2, Succeeded ''# Plan'')
          (run_stage (1, Succeeded ''empty living room'') started_session))"

section \<open>Properties\<close>

subsection \<open>Helper facts about the polling tick\<close>

lemma urls_distinct:
  "results_url a s \<noteq> status_url a s" "results_url a s \<noteq> plan_url a s"
  by (simp_all add: results_url_def status_url_def plan_url_def)

lemma poll_catch_fields:
  "sessionId (snd (poll_catch e c)) =
     (if session_not_found e = Inr True then None else sessionId c)"
  "isPolling (snd (poll_catch e c)) =
     (if session_not_found e = Inr True then False else isPolling c)"
  "localStorage (snd (poll_catch e c)) =
     (if session_not_found e = Inr True then (localStorage c)(''designSessionId'' := None)
      else localStorage c)"
  "fst (poll_catch e c) =
     (if session_not_found e = Inl TypeError then Rejected_TypeError else Fulfilled)"
  by (auto simp: poll_catch_def Let_def split: sum.splits js_error.splits bool.splits)

lemma poll_tick_failure:
  assumes "first_failure API_URL net sid = Some e"
  shows "sessionId (snd (snd (poll_tick API_URL net sid c))) = sessionId (snd (poll_catch e c))"
    and "isPolling (snd (snd (poll_tick API_URL net sid c))) = isPolling (snd (poll_catch e c))"
    and "localStorage (snd (snd (poll_tick API_URL net sid c)))
           = localStorage (snd (poll_catch e c))"
    and "fst (snd (poll_tick API_URL net sid c)) = fst (poll_catch e c)"
  using assms
  by (auto simp: first_failure_def poll_tick_def poll_catch_fields Let_def
      split: sum.splits if_splits prod.splits)

lemma session_not_found_iff:
  "session_not_found e = Inr True \<longleftrightarrow>
     response_status e = Some 404 \<or>
     (\<exists>s. detail_string e = Some s \<and> includes_str s ''not found'') \<or>
     (\<exists>vs. detail_array e = Some vs \<and> JStr ''not found'' \<in> set vs)"
  by (auto simp: session_not_found_def response_status_def response_detail_def
      detail_string_def detail_array_def optional_includes_def
      split: axios_error.splits option.splits jsval.splits)

lemma wire_names:
  "wire_name Idle = ''idle''" "wire_name Analyzing = ''analyzing''"
  "wire_name Planning = ''planning''" "wire_name Shopping = ''shopping''"
  "wire_name Designing = ''designing''" "wire_name Completed = ''completed''"
  "wire_name Error = ''error''"
  by code_simp+

lemma UNIV_session_state:
  "UNIV = {Idle, Analyzing, Planning, Shopping, Designing, Completed, Error}"
  by (auto intro: session_state.exhaust)

lemma terminal_names:
  "(\<exists>t. terminal t \<and> s = wire_name t) \<longleftrightarrow> (s = ''completed'' \<or> s = ''error'')"
  by (auto simp: terminal_def wire_names)

subsection \<open>Failed polling requests\<close>

text \<open>
  Claim C1, as stated, fails: the handler calls \<^verbatim>\<open>includes\<close> on whatever the
  \<^verbatim>\<open>detail\<close> of the response is, and an array has that method too. A response with
  the status 500 whose detail is the array \<^verbatim>\<open>['not found']\<close> has no detail string,
  and the client takes the session for expired all the same.
\<close>

theorem polling_failure_array_detail_counterexample:
  "first_failure api
     (server_failing (http_failure 500 (JObj [(''detail'', JArr [JStr ''not found''])]))) ''s1''
     = Some (http_failure 500 (JObj [(''detail'', JArr [JStr ''not found''])])) \<and>
   response_status (http_failure 500 (JObj [(''detail'', JArr [JStr ''not found''])]))
     = Some 500 \<and>
   detail_string (http_failure 500 (JObj [(''detail'', JArr [JStr ''not found''])])) = None \<and>
   session_not_found (http_failure 500 (JObj [(''detail'', JArr [JStr ''not found''])]))
     = Inr True \<and>
   isPolling polling_client \<and>
   sessionId (snd (snd (poll_tick api
     (server_failing (http_failure 500 (JObj [(''detail'', JArr [JStr ''not found''])])))
     ''s1'' polling_client))) = None \<and>
   isPolling (snd (snd (poll_tick api
     (server_failing (http_failure 500 (JObj [(''detail'', JArr [JStr ''not found''])])))
     ''s1'' polling_client))) = False"
  by (simp add: first_failure_def server_failing_def response_status_def detail_string_def
      response_detail_def http_failure_def get_detail_def session_not_found_def
      optional_includes_def poll_tick_def poll_catch_def polling_client_def fresh_client_def
      Let_def)

text \<open>
  Claim C1, amended. When a request of a polling tick fails with the error \<open>e\<close>, the
  client takes the session for expired if and only if the HTTP status of the response
  is 404, or the \<^verbatim>\<open>detail\<close> of the response is a string that contains
  \<^verbatim>\<open>not found\<close>, or the detail is an array that has the string \<^verbatim>\<open>not found\<close> as an
  element. It then removes \<^verbatim>\<open>designSessionId\<close> from \<^verbatim>\<open>localStorage\<close>, sets
  \<^verbatim>\<open>sessionId\<close> to null and \<^verbatim>\<open>isPolling\<close> to false. On every other failure
  \<^verbatim>\<open>sessionId\<close> and \<^verbatim>\<open>isPolling\<close> are as they were before the tick, so that polling
  goes on.
\<close>

theorem polling_failure_classification:
  assumes "first_failure API_URL net sid = Some e"
  shows
    "(session_not_found e = Inr True \<longleftrightarrow>
        response_status e = Some 404 \<or>
        (\<exists>s. detail_string e = Some s \<and> includes_str s ''not found'') \<or>
        (\<exists>vs. detail_array e = Some vs \<and> JStr ''not found'' \<in> set vs)) \<and>
     (session_not_found e = Inr True \<longrightarrow>
        sessionId (snd (snd (poll_tick API_URL net sid c))) = None \<and>
        isPolling (snd (snd (poll_tick API_URL net sid c))) = False \<and>
        localStorage (snd (snd (poll_tick API_URL net sid c))) ''designSessionId'' = None \<and>
        \<not> polling_active (snd (snd (poll_tick API_URL net sid c)))) \<and>
     (session_not_found e \<noteq> Inr True \<longrightarrow>
        sessionId (snd (snd (poll_tick API_URL net sid c))) = sessionId c \<and>
        isPolling (snd (snd (poll_tick API_URL net sid c))) = isPolling c \<and>
        polling_active (snd (snd (poll_tick API_URL net sid c))) = polling_active c)"
proof -
  have fields:
    "sessionId (snd (snd (poll_tick API_URL net sid c))) =
       (if session_not_found e = Inr True then None else sessionId c)"
    "isPolling (snd (snd (poll_tick API_URL net sid c))) =
       (if session_not_found e = Inr True then False else isPolling c)"
    "localStorage (snd (snd (poll_tick API_URL net sid c))) =
       (if session_not_found e = Inr True then (localStorage c)(''designSessionId'' := None)
        else localStorage c)"
    using poll_tick_failure [OF assms, of c] by (simp_all add: poll_catch_fields)
  have expired: "session_not_found e = Inr True \<longrightarrow>
        sessionId (snd (snd (poll_tick API_URL net sid c))) = None \<and>
        isPolling (snd (snd (poll_tick API_URL net sid c))) = False \<and>
        localStorage (snd (snd (poll_tick API_URL net sid c))) ''designSessionId'' = None \<and>
        \<not> polling_active (snd (snd (poll_tick API_URL net sid c)))"
    by (simp add: fields polling_active_def)
  have other: "session_not_found e \<noteq> Inr True \<longrightarrow>
        sessionId (snd (snd (poll_tick API_URL net sid c))) = sessionId c \<and>
        isPolling (snd (snd (poll_tick API_URL net sid c))) = isPolling c \<and>
        polling_active (snd (snd (poll_tick API_URL net sid c))) = polling_active c"
    by (simp add: fields polling_active_def split: option.split)
  from session_not_found_iff [of e] expired other show ?thesis by blast
qed

theorem polling_failure_classification_witness:
  "first_failure api
     (server_failing (http_failure 500 (JObj [(''detail'', JStr ''Session not found'')]))) ''s1''
     = Some (http_failure 500 (JObj [(''detail'', JStr ''Session not found'')])) \<and>
   detail_string (http_failure 500 (JObj [(''detail'', JStr ''Session not found'')]))
     = Some ''Session not found'' \<and>
   includes_str ''Session not found'' ''not found'' \<and>
   session_not_found (http_failure 500 (JObj [(''detail'', JStr ''Session not found'')]))
     = Inr True \<and>
   sessionId (snd (snd (poll_tick api
     (server_failing (http_failure 500 (JObj [(''detail'', JStr ''Session not found'')])))
     ''s1'' polling_client))) = None \<and>
   isPolling (snd (snd (poll_tick api
     (server_failing (http_failure 500 (JObj [(''detail'', JStr ''Session not found'')])))
     ''s1'' polling_client))) = False"
proof -
  let ?e = "http_failure 500 (JObj [(''detail'', JStr ''Session not found'')])"
  have ff: "first_failure api (server_failing ?e) ''s1'' = Some ?e"
    by (simp add: first_failure_def server_failing_def)
  have ds: "detail_string ?e = Some ''Session not found''"
    by (simp add: detail_string_def response_detail_def http_failure_def get_detail_def)
  have inc: "includes_str ''Session not found'' ''not found''"
    by (simp add: includes_str_def sublist_code)
  from polling_failure_classification [OF ff, of polling_client] ds inc
  have "session_not_found ?e = Inr True \<and>
        sessionId (snd (snd (poll_tick api (server_failing ?e) ''s1'' polling_client))) = None \<and>
        isPolling (snd (snd (poll_tick api (server_failing ?e) ''s1'' polling_client))) = False"
    by blast
  with ff ds inc show ?thesis by simp
qed

subsection \<open>The status names\<close>

text \<open>
  Claim C2. The keys of \<^verbatim>\<open>statusEmoji\<close> are exactly the names of the seven session
  states of the spec, in the client's lower-case spelling. In a polling tick in which no
  request fails, polling is switched off exactly when the status names a terminal state
  (\<open>Completed\<close> or \<open>Error\<close>): for every status string, the two comparisons of the
  polling effect end polling if and only if the string names a terminal state.
\<close>

theorem status_names_and_terminal_states:
  "set (map fst statusEmoji) = range wire_name \<and>
   (\<forall>st. first_failure API_URL net sid = None \<longrightarrow>
         get_status net (status_url API_URL sid) = Inr st \<longrightarrow>
         isPolling c \<longrightarrow>
         (\<not> isPolling (snd (snd (poll_tick API_URL net sid c))) \<longleftrightarrow>
            (\<exists>t. terminal t \<and> status st = wire_name t)))"
proof -
  have keys: "set (map fst statusEmoji) = range wire_name"
    by (simp add: UNIV_session_state statusEmoji_def wire_names)
  have stop: "\<not> isPolling (snd (snd (poll_tick API_URL net sid c))) \<longleftrightarrow>
            (\<exists>t. terminal t \<and> status st = wire_name t)"
    if "first_failure API_URL net sid = None"
      and "get_status net (status_url API_URL sid) = Inr st" and "isPolling c" for st
    using that unfolding terminal_names
    by (auto simp: first_failure_def poll_tick_def Let_def split: sum.splits if_splits)
  from keys stop show ?thesis by blast
qed

theorem status_names_and_terminal_states_witness:
  "first_failure api (server_ok ''error'') ''s1'' = None \<and>
   get_status (server_ok ''error'') (status_url api ''s1'') = Inr (status_of ''error'') \<and>
   isPolling polling_client \<and>
   terminal Error \<and> status (status_of ''error'') = wire_name Error \<and>
   \<not> isPolling (snd (snd (poll_tick api (server_ok ''error'') ''s1'' polling_client)))"
proof -
  have ff: "first_failure api (server_ok ''error'') ''s1'' = None"
    by (simp add: first_failure_def server_ok_def status_of_def)
  have gs: "get_status (server_ok ''error'') (status_url api ''s1'') = Inr (status_of ''error'')"
    by (simp add: server_ok_def)
  have pol: "isPolling polling_client"
    by (simp add: polling_client_def fresh_client_def)
  have nm: "terminal Error \<and> status (status_of ''error'') = wire_name Error"
    by (simp add: terminal_def status_of_def wire_names)
  from status_names_and_terminal_states [of api "server_ok ''error''" "''s1''" polling_client]
    ff gs pol nm
  show ?thesis by blast
qed

subsection \<open>When the results are requested\<close>

text \<open>
  Claim C3, as stated, fails: the plan request of a tick is awaited before the status is
  looked at, and its failure ends the tick. With the status \<^verbatim>\<open>'completed'\<close> and a plan
  request that fails with 500, no results request is issued; with the status
  \<^verbatim>\<open>'error'\<close> and the same failure, polling is not stopped; with the status
  \<^verbatim>\<open>'analyzing'\<close> and a plan request that fails with 404, polling is stopped.
\<close>

theorem results_request_counterexample:
  "get_status (server_plan_failing ''completed'' (http_failure 500 JNull)) (status_url api ''s1'')
     = Inr (status_of ''completed'') \<and>
   GET (results_url api ''s1'') \<notin>
     set (fst (poll_tick api (server_plan_failing ''completed'' (http_failure 500 JNull))
                ''s1'' polling_client)) \<and>
   get_status (server_plan_failing ''error'' (http_failure 500 JNull)) (status_url api ''s1'')
     = Inr (status_of ''error'') \<and>
   isPolling (snd (snd (poll_tick api (server_plan_failing ''error'' (http_failure 500 JNull))
                ''s1'' polling_client))) \<and>
   get_status (server_plan_failing ''analyzing'' (http_failure 404 JNull)) (status_url api ''s1'')
     = Inr (status_of ''analyzing'') \<and>
   isPolling polling_client \<and>
   \<not> isPolling (snd (snd (poll_tick api
                (server_plan_failing ''analyzing'' (http_failure 404 JNull))
                ''s1'' polling_client)))"
  by (simp add: poll_tick_def poll_catch_def session_not_found_def optional_includes_def
      get_detail_def server_plan_failing_def server_ok_def http_failure_def status_of_def
      polling_client_def fresh_client_def api_def results_url_def status_url_def plan_url_def
      Let_def)

text \<open>
  Claim C3, amended. In every polling tick the client issues a GET to the results
  endpoint if and only if the status request and the plan request of that tick both
  succeed and the status response has the status \<^verbatim>\<open>'completed'\<close>. When both succeed, a
  status of \<^verbatim>\<open>'error'\<close> stops polling without a results request, and every other
  status value neither requests the results nor stops polling.
\<close>

theorem results_requested_iff_completed:
  "(GET (results_url API_URL sid) \<in> set (fst (poll_tick API_URL net sid c)) \<longleftrightarrow>
      (\<exists>st p. get_status net (status_url API_URL sid) = Inr st \<and>
              get_plan net (plan_url API_URL sid) = Inr p \<and> status st = ''completed'')) \<and>
   (\<forall>st p. get_status net (status_url API_URL sid) = Inr st \<longrightarrow>
           get_plan net (plan_url API_URL sid) = Inr p \<longrightarrow>
      (status st = ''error'' \<longrightarrow>
         \<not> isPolling (snd (snd (poll_tick API_URL net sid c))) \<and>
         GET (results_url API_URL sid) \<notin> set (fst (poll_tick API_URL net sid c))) \<and>
      (status st \<noteq> ''completed'' \<longrightarrow> status st \<noteq> ''error'' \<longrightarrow>
         GET (results_url API_URL sid) \<notin> set (fst (poll_tick API_URL net sid c)) \<and>
         isPolling (snd (snd (poll_tick API_URL net sid c))) = isPolling c \<and>
         sessionId (snd (snd (poll_tick API_URL net sid c))) = sessionId c))"
proof -
  have req: "GET (results_url API_URL sid) \<in> set (fst (poll_tick API_URL net sid c)) \<longleftrightarrow>
      (\<exists>st p. get_status net (status_url API_URL sid) = Inr st \<and>
              get_plan net (plan_url API_URL sid) = Inr p \<and> status st = ''completed'')"
    by (auto simp: poll_tick_def Let_def urls_distinct split: sum.splits prod.splits)
  have rest:
    "(status st = ''error'' \<longrightarrow>
         \<not> isPolling (snd (snd (poll_tick API_URL net sid c))) \<and>
         GET (results_url API_URL sid) \<notin> set (fst (poll_tick API_URL net sid c))) \<and>
      (status st \<noteq> ''completed'' \<longrightarrow> status st \<noteq> ''error'' \<longrightarrow>
         GET (results_url API_URL sid) \<notin> set (fst (poll_tick API_URL net sid c)) \<and>
         isPolling (snd (snd (poll_tick API_URL net sid c))) = isPolling c \<and>
         sessionId (snd (snd (poll_tick API_URL net sid c))) = sessionId c)"
    if "get_status net (status_url API_URL sid) = Inr st"
      and "get_plan net (plan_url API_URL sid) = Inr p" for st p
    using that by (simp add: poll_tick_def Let_def urls_distinct)
  from req rest show ?thesis by blast
qed

theorem results_requested_iff_completed_witness:
  "get_status (server_ok ''error'') (status_url api ''s1'') = Inr (status_of ''error'') \<and>
   get_plan (server_ok ''error'') (plan_url api ''s1'')
     = Inr \<lparr>plan = ''# Plan'', DesignPlanResponse.status = ''error''\<rparr> \<and>
   status (status_of ''error'') = ''error'' \<and>
   \<not> isPolling (snd (snd (poll_tick api (server_ok ''error'') ''s1'' polling_client))) \<and>
   GET (results_url api ''s1'') \<notin> set (fst (poll_tick api (server_ok ''error'') ''s1'' polling_client)) \<and>
   get_status (server_ok ''planning'') (status_url api ''s1'') = Inr (status_of ''planning'') \<and>
   status (status_of ''planning'') \<noteq> ''completed'' \<and>
   status (status_of ''planning'') \<noteq> ''error'' \<and>
   isPolling (snd (snd (poll_tick api (server_ok ''planning'') ''s1'' polling_client)))
     = isPolling polling_client"
proof -
  have e1: "get_status (server_ok ''error'') (status_url api ''s1'') = Inr (status_of ''error'')"
    and e2: "get_plan (server_ok ''error'') (plan_url api ''s1'')
               = Inr \<lparr>plan = ''# Plan'', DesignPlanResponse.status = ''error''\<rparr>"
    and e3: "status (status_of ''error'') = ''error''"
    by (simp_all add: server_ok_def status_of_def)
  have p1: "get_status (server_ok ''planning'') (status_url api ''s1'')
              = Inr (status_of ''planning'')"
    and p2: "get_plan (server_ok ''planning'') (plan_url api ''s1'')
               = Inr \<lparr>plan = ''# Plan'', DesignPlanResponse.status = ''planning''\<rparr>"
    and p3: "status (status_of ''planning'') \<noteq> ''completed''"
    and p4: "status (status_of ''planning'') \<noteq> ''error''"
    by (simp_all add: server_ok_def status_of_def)
  from results_requested_iff_completed [of api "''s1''" "server_ok ''error''" polling_client]
    e1 e2 e3
  have a: "\<not> isPolling (snd (snd (poll_tick api (server_ok ''error'') ''s1'' polling_client))) \<and>
     GET (results_url api ''s1'') \<notin> set (fst (poll_tick api (server_ok ''error'') ''s1'' polling_client))"
    by blast
  from results_requested_iff_completed [of api "''s1''" "server_ok ''planning''" polling_client]
    p1 p2 p3 p4
  have b: "isPolling (snd (snd (poll_tick api (server_ok ''planning'') ''s1'' polling_client)))
     = isPolling polling_client"
    by blast
  from a b e1 e2 e3 p1 p3 p4 show ?thesis by simp
qed

subsection \<open>handleUpload\<close>

text \<open>
  Claim C6. \<^verbatim>\<open>handleUpload\<close> first POSTs the file as multipart form data to
  \<^verbatim>\<open>/api/upload\<close>. When that succeeds it stores the \<^verbatim>\<open>session_id\<close> of the answer and
  POSTs \<^verbatim>\<open>/api/agent/start/{session_id}\<close> with exactly that id, and nothing else is
  requested. It sets \<^verbatim>\<open>isPolling\<close> to true when both calls have succeeded; when either
  fails it leaves \<^verbatim>\<open>isPolling\<close> as it was, so that a client that was not polling is
  polling afterwards if and only if both calls succeeded.
\<close>

theorem handleUpload_control_flow:
  "(\<forall>e. post_upload net (upload_url API_URL) file = Inl e \<longrightarrow>
        fst (handleUpload API_URL net file c) = [POST_multipart (upload_url API_URL) file] \<and>
        sessionId (snd (snd (handleUpload API_URL net file c))) = sessionId c \<and>
        isPolling (snd (snd (handleUpload API_URL net file c))) = isPolling c) \<and>
   (\<forall>r. post_upload net (upload_url API_URL) file = Inr r \<longrightarrow>
        fst (handleUpload API_URL net file c) =
          [POST_multipart (upload_url API_URL) file,
           POST (start_url API_URL (UploadResponse.session_id r))] \<and>
        sessionId (snd (snd (handleUpload API_URL net file c)))
          = Some (UploadResponse.session_id r) \<and>
        (\<forall>e. post_start net (start_url API_URL (UploadResponse.session_id r)) = Inl e \<longrightarrow>
             isPolling (snd (snd (handleUpload API_URL net file c))) = isPolling c) \<and>
        (post_start net (start_url API_URL (UploadResponse.session_id r)) = Inr () \<longrightarrow>
             isPolling (snd (snd (handleUpload API_URL net file c))) = True)) \<and>
   (\<not> isPolling c \<longrightarrow>
      (isPolling (snd (snd (handleUpload API_URL net file c))) \<longleftrightarrow>
         (\<exists>r. post_upload net (upload_url API_URL) file = Inr r \<and>
              post_start net (start_url API_URL (UploadResponse.session_id r)) = Inr ())))"
  by (auto simp: handleUpload_def Let_def split: sum.splits)

theorem handleUpload_control_flow_witness:
  "fst (handleUpload api (server_ok ''idle'') ''room.png'' fresh_client) =
     [POST_multipart ''http://localhost:8000/api/upload'' ''room.png'',
      POST ''http://localhost:8000/api/agent/start/s1''] \<and>
   sessionId (snd (snd (handleUpload api (server_ok ''idle'') ''room.png'' fresh_client)))
     = Some ''s1'' \<and>
   isPolling (snd (snd (handleUpload api (server_ok ''idle'') ''room.png'' fresh_client))) \<and>
   \<not> isPolling fresh_client \<and>
   post_start (server_start_failing (http_failure 500 JNull)) (start_url api ''s1'')
     = Inl (http_failure 500 JNull) \<and>
   \<not> isPolling (snd (snd (handleUpload api (server_start_failing (http_failure 500 JNull))
                 ''room.png'' fresh_client)))"
proof -
  have up: "post_upload (server_ok ''idle'') (upload_url api) ''room.png'' =
      Inr \<lparr>success = True, UploadResponse.session_id = ''s1'',
           file_path = ''uploads/a.png'', filename = ''a.png''\<rparr>"
    and st: "post_start (server_ok ''idle'') (start_url api ''s1'') = Inr ()"
    by (simp_all add: server_ok_def)
  have up': "post_upload (server_start_failing (http_failure 500 JNull)) (upload_url api) ''room.png'' =
      Inr \<lparr>success = True, UploadResponse.session_id = ''s1'',
           file_path = ''uploads/a.png'', filename = ''a.png''\<rparr>"
    and st': "post_start (server_start_failing (http_failure 500 JNull)) (start_url api ''s1'')
      = Inl (http_failure 500 JNull)"
    by (simp_all add: server_start_failing_def server_ok_def)
  have np: "\<not> isPolling fresh_client"
    by (simp add: fresh_client_def)
  from handleUpload_control_flow [of "server_ok ''idle''" api "''room.png''" fresh_client] up st
  have a: "fst (handleUpload api (server_ok ''idle'') ''room.png'' fresh_client) =
      [POST_multipart (upload_url api) ''room.png'', POST (start_url api ''s1'')] \<and>
    sessionId (snd (snd (handleUpload api (server_ok ''idle'') ''room.png'' fresh_client)))
      = Some ''s1'' \<and>
    isPolling (snd (snd (handleUpload api (server_ok ''idle'') ''room.png'' fresh_client)))"
    by simp
  from handleUpload_control_flow
    [of "server_start_failing (http_failure 500 JNull)" api "''room.png''" fresh_client] up' st' np
  have b: "\<not> isPolling (snd (snd (handleUpload api (server_start_failing (http_failure 500 JNull))
                 ''room.png'' fresh_client)))"
    by simp
  from a b np st' show ?thesis
    by (simp add: upload_url_def start_url_def api_def)
qed

subsection \<open>resetAgent\<close>

text \<open>
  Claim C9. After every invocation of \<^verbatim>\<open>resetAgent\<close> the client state has
  \<^verbatim>\<open>sessionId = null\<close>, \<^verbatim>\<open>agentStatus = null\<close>, \<^verbatim>\<open>designPlan = ''\<close>,
  \<^verbatim>\<open>finalResults = null\<close> and \<^verbatim>\<open>isPolling = false\<close>, and the handler's promise is
  fulfilled, whether the DELETE request succeeded, failed or was skipped; a DELETE is
  issued only when \<^verbatim>\<open>sessionId\<close> was not null, and then it goes to the agent URL of
  that session.
\<close>

theorem resetAgent_resets:
  "sessionId (snd (snd (resetAgent API_URL net c))) = None \<and>
   agentStatus (snd (snd (resetAgent API_URL net c))) = None \<and>
   designPlan (snd (snd (resetAgent API_URL net c))) = [] \<and>
   finalResults (snd (snd (resetAgent API_URL net c))) = None \<and>
   isPolling (snd (snd (resetAgent API_URL net c))) = False \<and>
   fst (snd (resetAgent API_URL net c)) = Fulfilled \<and>
   (fst (resetAgent API_URL net c) \<noteq> [] \<longrightarrow>
      (\<exists>sid. sessionId c = Some sid \<and>
             fst (resetAgent API_URL net c) = [DELETE (agent_url API_URL sid)]))"
  by (simp add: resetAgent_def Let_def split: option.split sum.split)

theorem resetAgent_resets_witness:
  "fst (resetAgent api (server_failing (http_failure 500 JNull)) polling_client)
     = [DELETE ''http://localhost:8000/api/agent/s1''] \<and>
   sessionId (snd (snd (resetAgent api (server_failing (http_failure 500 JNull)) polling_client)))
     = None \<and>
   isPolling (snd (snd (resetAgent api (server_failing (http_failure 500 JNull)) polling_client)))
     = False"
  using resetAgent_resets [of api "server_failing (http_failure 500 JNull)" polling_client]
  by (simp add: resetAgent_def polling_client_def fresh_client_def server_failing_def
      agent_url_def api_def truthy_str_def)

subsection \<open>The activity log\<close>

lemma slice_last_five: "slice (- 5) m = drop (length m - 5) m"
  by (auto simp: slice_def Let_def max_def nat_diff_distrib'
      intro: arg_cong [where f = "\<lambda>k. drop k m"])





subsection \<open>The fields of the status payload\<close>

lemma status_emoji_idle: "status_emoji s = Txt ''U+1F4A4'' \<longleftrightarrow> s = ''idle''"
  by (auto simp: status_emoji_def get_property_def statusEmoji_def Object_prototype_def
      or_default_def child_of_def hourglass_def truthy_str_def split: if_splits)

lemma status_field_rendered:
  "\<exists>v. AgentProgress (Some (st\<lparr>status := v\<rparr>)) \<noteq> AgentProgress (Some st)"
proof (cases "status st = ''idle''")
  case True
  have "status_emoji ''error'' \<noteq> status_emoji ''idle''"
    by (simp add: status_emoji_def get_property_def statusEmoji_def or_default_def
        child_of_def truthy_str_def)
  with True show ?thesis
    by (intro exI [of _ "''error''"])
       (simp add: AgentProgress_def activity_log_def errors_section_def)
next
  case False
  then have "status_emoji ''idle'' \<noteq> status_emoji (status st)"
    using status_emoji_idle [of "status st"] status_emoji_idle [of "''idle''"] by simp
  then show ?thesis
    by (intro exI [of _ "''idle''"])
       (simp add: AgentProgress_def activity_log_def errors_section_def)
qed

lemma messages_field_rendered:
  "\<exists>ms. AgentProgress (Some (st\<lparr>messages := ms\<rparr>)) \<noteq> AgentProgress (Some st)"
proof (cases "messages st = []")
  case True
  then show ?thesis
    by (intro exI [of _ "[\<lparr>timestamp = [], message = []\<rparr>]"])
       (simp add: AgentProgress_def activity_log_def errors_section_def slice_def)
next
  case False
  then have "slice (- 5) (messages st) \<noteq> []"
    by (cases "messages st") (simp_all add: slice_last_five)
  then show ?thesis
    by (intro exI [of _ "[]"])
       (simp add: AgentProgress_def activity_log_def errors_section_def slice_def)
qed

lemma other_fields_rendered:
  "v \<noteq> current_step st \<longrightarrow>
     AgentProgress (Some (st\<lparr>current_step := v\<rparr>)) \<noteq> AgentProgress (Some st)"
  "w \<noteq> steps_completed st \<longrightarrow>
     AgentProgress (Some (st\<lparr>steps_completed := w\<rparr>)) \<noteq> AgentProgress (Some st)"
  "p \<noteq> progress_percentage st \<longrightarrow>
     AgentProgress (Some (st\<lparr>progress_percentage := p\<rparr>)) \<noteq> AgentProgress (Some st)"
  "er \<noteq> errors st \<longrightarrow>
     AgentProgress (Some (st\<lparr>errors := er\<rparr>)) \<noteq> AgentProgress (Some st)"
  by (auto simp: AgentProgress_def activity_log_def errors_section_def inj_map_eq_map inj_def)

text \<open>
  Claim C8. The status payload the client consumes is the record of six fields
  \<^verbatim>\<open>status\<close>, \<^verbatim>\<open>current_step\<close>, \<^verbatim>\<open>steps_completed\<close>, \<^verbatim>\<open>progress_percentage\<close>,
  \<^verbatim>\<open>messages\<close> and \<^verbatim>\<open>errors\<close>: two payloads that agree on the six are the same
  payload, so nothing else can matter to what \<^verbatim>\<open>AgentProgress\<close> renders; and each of
  the six is needed, since for every payload a change of that field alone changes what
  is rendered.
\<close>

theorem agent_status_six_fields:
  "(\<forall>s s' :: AgentStatus.
      status s = status s' \<and> current_step s = current_step s' \<and>
      steps_completed s = steps_completed s' \<and>
      progress_percentage s = progress_percentage s' \<and>
      messages s = messages s' \<and> errors s = errors s' \<longrightarrow> s = s') \<and>
   (\<exists>v. AgentProgress (Some (st\<lparr>status := v\<rparr>)) \<noteq> AgentProgress (Some st)) \<and>
   (\<forall>v. v \<noteq> current_step st \<longrightarrow>
      AgentProgress (Some (st\<lparr>current_step := v\<rparr>)) \<noteq> AgentProgress (Some st)) \<and>
   (\<forall>v. v \<noteq> steps_completed st \<longrightarrow>
      AgentProgress (Some (st\<lparr>steps_completed := v\<rparr>)) \<noteq> AgentProgress (Some st)) \<and>
   (\<forall>v. v \<noteq> progress_percentage st \<longrightarrow>
      AgentProgress (Some (st\<lparr>progress_percentage := v\<rparr>)) \<noteq> AgentProgress (Some st)) \<and>
   (\<exists>v. AgentProgress (Some (st\<lparr>messages := v\<rparr>)) \<noteq> AgentProgress (Some st)) \<and>
   (\<forall>v. v \<noteq> errors st \<longrightarrow>
      AgentProgress (Some (st\<lparr>errors := v\<rparr>)) \<noteq> AgentProgress (Some st))"
proof -
  have determined: "\<forall>s s' :: AgentStatus.
      status s = status s' \<and> current_step s = current_step s' \<and>
      steps_completed s = steps_completed s' \<and>
      progress_percentage s = progress_percentage s' \<and>
      messages s = messages s' \<and> errors s = errors s' \<longrightarrow> s = s'"
    by simp
  from determined status_field_rendered [of st] messages_field_rendered [of st]
    other_fields_rendered [of _ st]
  show ?thesis by blast
qed

theorem agent_status_six_fields_witness:
  "''planning step'' \<noteq> current_step (status_of ''planning'') \<and>
   AgentProgress (Some ((status_of ''planning'')\<lparr>current_step := ''planning step''\<rparr>))
     \<noteq> AgentProgress (Some (status_of ''planning'')) \<and>
   [''disk full''] \<noteq> errors (status_of ''planning'') \<and>
   AgentProgress (Some ((status_of ''planning'')\<lparr>errors := [''disk full'']\<rparr>))
     \<noteq> AgentProgress (Some (status_of ''planning''))"
proof -
  have a: "''planning step'' \<noteq> current_step (status_of ''planning'')"
    and b: "[''disk full''] \<noteq> errors (status_of ''planning'')"
    by (simp_all add: status_of_def)
  from agent_status_six_fields [of "status_of ''planning''"] a b
  show ?thesis by blast
qed

subsection \<open>Furniture items with null fields\<close>

lemma furniture_card_item_value:
  "furniture_card API_URL (item_value item) =
     Inr (El ''div'' ''furniture-card''
       [js_and (nullable JStr (image_url item))
          (El ''div'' ''furniture-image''
             [Img [JStr API_URL, nullable JStr (image_url item)] (JStr (title item))]),
        El ''h4'' [] [Txt (title item)],
        js_and (nullable JStr (source item))
          (El ''p'' ''furniture-source''
             [Txt ''from '', child_of_value (nullable JStr (source item))]),
        js_and (nullable JStr (category item))
          (El ''p'' ''furniture-category'' [child_of_value (nullable JStr (category item))]),
        js_and (nullable JStr (price item))
          (El ''p'' ''furniture-price'' [child_of_value (nullable JStr (price item))]),
        js_and (nullable JNum (product_rating item))
          (El ''p'' ''furniture-rating''
             [child_of_value (nullable JNum (product_rating item)), Txt ''U+2B50 ('',
              child_of_value (js_or (nullable JNum (product_reviews item)) (JNum 0)),
              Txt '' reviews)'']),
        js_and (nullable JStr (delivery item))
          (El ''p'' ''furniture-delivery'' [child_of_value (nullable JStr (delivery item))]),
        js_and (nullable JStr (google_link item))
          (Link (nullable JStr (google_link item)) [Txt ''View on Google Shopping U+2192''])])"
  by (simp add: furniture_card_def item_value_def get_member_def and_then_def)

lemma nullable_simps:
  "nullable f None = JNull" "nullable f (Some a) = f a"
  by (simp_all add: nullable_def)

lemma truthy_nullable:
  "truthy (nullable JStr v) \<longleftrightarrow> (\<exists>s. v = Some s \<and> s \<noteq> [])"
  "truthy (nullable JNum w) \<longleftrightarrow> (\<exists>n. w = Some n \<and> n \<noteq> 0)"
  by (cases v; cases w; simp add: nullable_def truthy_def truthy_str_def)+

lemma eq_js_and:
  "(El t c ch = js_and u element) = (truthy u \<and> El t c ch = element)"
  "(Link h ch = js_and u element) = (truthy u \<and> Link h ch = element)"
  by (cases u; simp add: js_and_def truthy_def)+

lemma reviews_or_zero:
  "child_of_value (js_or (nullable JNum w) (JNum 0)) =
     Num (case w of None \<Rightarrow> 0 | Some n \<Rightarrow> n)"
  by (simp add: js_or_def nullable_def truthy_def split: option.split)

lemma renderable_nullable:
  "renderable (child_of_value (nullable JStr v))"
  "renderable (child_of_value (nullable JNum w))"
  "renderable (js_and u element) =
     (if truthy u then renderable element else renderable (child_of_value u))"
  by (simp_all add: js_and_def nullable_def split: option.split)

lemma furniture_cards_render:
  "\<exists>cards. map_throwing (furniture_card API_URL) (map item_value items) = Inr cards \<and>
           (\<forall>card \<in> set cards. renderable card) \<and>
           map Inr cards = map (\<lambda>item. furniture_card API_URL (item_value item)) items"
proof (induction items)
  case Nil
  then show ?case by simp
next
  case (Cons item items)
  then obtain cards where cards:
    "map_throwing (furniture_card API_URL) (map item_value items) = Inr cards"
    "\<forall>card \<in> set cards. renderable card"
    "map Inr cards = map (\<lambda>item. furniture_card API_URL (item_value item)) items"
    by blast
  obtain card where card: "furniture_card API_URL (item_value item) = Inr card"
    "renderable card"
    by (simp add: furniture_card_item_value renderable_nullable reviews_or_zero)
  from card cards show ?case
    by (simp add: and_then_def)
qed

text \<open>
  A payload that does not follow the interface can make the rendering throw: an item
  that is null throws when its first field is read, and a price that is an object is
  not a valid child.
\<close>

lemma furniture_card_can_throw:
  "furniture_card API_URL JNull = Inl TypeError"
  "\<exists>card. furniture_card API_URL price_object_item = Inr card \<and>
          react_render card = Inl Objects_are_not_valid_as_a_React_child"
  by (simp_all add: furniture_card_def get_member_def and_then_def price_object_item_def
      js_and_def js_or_def truthy_def react_render_def)

text \<open>
  Claim C5. In the \<^verbatim>\<open>FurnitureItem\<close> record the field \<^verbatim>\<open>title\<close> is a string, and each
  of the other thirteen fields admits null: the item whose thirteen nullable fields are
  all null is a value of the type, and arrives as an object with a string title and
  thirteen nulls. For every item of the type, whatever fields are null, the card is
  built without a throw and React renders it: its eight children are the title, always,
  and for each of the image, the source, the category, the price, the rating, the
  delivery and the link either the element, exactly when the field is truthy, or
  nothing. The fields \<^verbatim>\<open>direct_link\<close>, \<^verbatim>\<open>store_rating\<close>, \<^verbatim>\<open>store_reviews\<close>,
  \<^verbatim>\<open>position\<close> and \<^verbatim>\<open>local_image_path\<close> are not read. The results section has one
  card for each item and renders for every results payload.
\<close>

theorem furniture_item_fields_nullable:
  "furniture_card API_URL (item_value item) =
     Inr (El ''div'' ''furniture-card''
            (card_children (furniture_card API_URL (item_value item)))) \<and>
   length (card_children (furniture_card API_URL (item_value item))) = 8 \<and>
   (\<forall>ch \<in> set (card_children (furniture_card API_URL (item_value item))). renderable ch) \<and>
   El ''h4'' [] [Txt (title item)]
     \<in> set (card_children (furniture_card API_URL (item_value item))) \<and>
   (\<forall>u. El ''div'' ''furniture-image'' [Img [JStr API_URL, JStr u] (JStr (title item))]
          \<in> set (card_children (furniture_card API_URL (item_value item)))
        \<longleftrightarrow> image_url item = Some u \<and> u \<noteq> []) \<and>
   (\<forall>s. El ''p'' ''furniture-source'' [Txt ''from '', Txt s]
          \<in> set (card_children (furniture_card API_URL (item_value item)))
        \<longleftrightarrow> source item = Some s \<and> s \<noteq> []) \<and>
   (\<forall>s. El ''p'' ''furniture-category'' [Txt s]
          \<in> set (card_children (furniture_card API_URL (item_value item)))
        \<longleftrightarrow> category item = Some s \<and> s \<noteq> []) \<and>
   (\<forall>s. El ''p'' ''furniture-price'' [Txt s]
          \<in> set (card_children (furniture_card API_URL (item_value item)))
        \<longleftrightarrow> price item = Some s \<and> s \<noteq> []) \<and>
   (\<forall>r n. El ''p'' ''furniture-rating'' [Num r, Txt ''U+2B50 ('', Num n, Txt '' reviews)'']
          \<in> set (card_children (furniture_card API_URL (item_value item)))
        \<longleftrightarrow> product_rating item = Some r \<and> r \<noteq> 0 \<and>
            n = (case product_reviews item of None \<Rightarrow> 0 | Some k \<Rightarrow> k)) \<and>
   (\<forall>s. El ''p'' ''furniture-delivery'' [Txt s]
          \<in> set (card_children (furniture_card API_URL (item_value item)))
        \<longleftrightarrow> delivery item = Some s \<and> s \<noteq> []) \<and>
   (\<forall>l. Link (JStr l) [Txt ''View on Google Shopping U+2192'']
          \<in> set (card_children (furniture_card API_URL (item_value item)))
        \<longleftrightarrow> google_link item = Some l \<and> l \<noteq> []) \<and>
   furniture_card API_URL
       (item_value (item\<lparr>direct_link := dl, store_rating := sr, store_reviews := sv,
                        position := pos, local_image_path := lp\<rparr>))
     = furniture_card API_URL (item_value item) \<and>
   (\<exists>cards. furniture_grid API_URL (map item_value (furniture_items results))
              = Inr (El ''div'' ''furniture-grid'' cards) \<and>
            map Inr cards
              = map (\<lambda>item. furniture_card API_URL (item_value item)) (furniture_items results)) \<and>
   (\<exists>cards rest rendered.
      rendered =
        El ''div'' ''results-section''
          (rest @ [El ''div'' ''furniture-list''
                     [El ''h3'' [] [Txt ''Selected Furniture''],
                      El ''div'' ''furniture-grid'' cards]]) \<and>
      map Inr cards
        = map (\<lambda>item. furniture_card API_URL (item_value item)) (furniture_items results) \<and>
      ResultsSection API_URL results = Inr rendered \<and>
      react_render rendered = Inr rendered) \<and>
   item_value (null_item t) =
     JObj [(''title'', JStr t), (''price'', JNull), (''google_link'', JNull),
           (''direct_link'', JNull), (''source'', JNull), (''delivery'', JNull),
           (''product_rating'', JNull), (''product_reviews'', JNull),
           (''store_rating'', JNull), (''store_reviews'', JNull), (''category'', JNull),
           (''position'', JNull), (''image_url'', JNull), (''local_image_path'', JNull)] \<and>
   furniture_card API_URL (item_value (null_item t)) =
     Inr (El ''div'' ''furniture-card''
            [Empty, El ''h4'' [] [Txt t], Empty, Empty, Empty, Empty, Empty, Empty])"
proof -
  let ?cs = "card_children (furniture_card API_URL (item_value item))"
  have cs: "?cs =
       [js_and (nullable JStr (image_url item))
          (El ''div'' ''furniture-image''
             [Img [JStr API_URL, nullable JStr (image_url item)] (JStr (title item))]),
        El ''h4'' [] [Txt (title item)],
        js_and (nullable JStr (source item))
          (El ''p'' ''furniture-source''
             [Txt ''from '', child_of_value (nullable JStr (source item))]),
        js_and (nullable JStr (category item))
          (El ''p'' ''furniture-category'' [child_of_value (nullable JStr (category item))]),
        js_and (nullable JStr (price item))
          (El ''p'' ''furniture-price'' [child_of_value (nullable JStr (price item))]),
        js_and (nullable JNum (product_rating item))
          (El ''p'' ''furniture-rating''
             [child_of_value (nullable JNum (product_rating item)), Txt ''U+2B50 ('',
              child_of_value (js_or (nullable JNum (product_reviews item)) (JNum 0)),
              Txt '' reviews)'']),
        js_and (nullable JStr (delivery item))
          (El ''p'' ''furniture-delivery'' [child_of_value (nullable JStr (delivery item))]),
        js_and (nullable JStr (google_link item))
          (Link (nullable JStr (google_link item)) [Txt ''View on Google Shopping U+2192''])]"
    by (simp add: furniture_card_item_value card_children_def)
  have built: "furniture_card API_URL (item_value item) = Inr (El ''div'' ''furniture-card'' ?cs)"
    unfolding cs by (rule furniture_card_item_value)
  have len: "length ?cs = 8"
    by (simp add: cs)
  have ok: "\<forall>ch \<in> set ?cs. renderable ch"
    by (simp add: cs renderable_nullable reviews_or_zero)
  have ttl: "El ''h4'' [] [Txt (title item)] \<in> set ?cs"
    by (simp add: cs)
  have img: "El ''div'' ''furniture-image'' [Img [JStr API_URL, JStr u] (JStr (title item))]
          \<in> set ?cs \<longleftrightarrow> image_url item = Some u \<and> u \<noteq> []" for u
    by (auto simp: cs eq_js_and truthy_nullable reviews_or_zero nullable_simps)
  have src: "El ''p'' ''furniture-source'' [Txt ''from '', Txt s] \<in> set ?cs
        \<longleftrightarrow> source item = Some s \<and> s \<noteq> []" for s
    by (auto simp: cs eq_js_and truthy_nullable reviews_or_zero nullable_simps)
  have cat: "El ''p'' ''furniture-category'' [Txt s] \<in> set ?cs
        \<longleftrightarrow> category item = Some s \<and> s \<noteq> []" for s
    by (auto simp: cs eq_js_and truthy_nullable reviews_or_zero nullable_simps)
  have prc: "El ''p'' ''furniture-price'' [Txt s] \<in> set ?cs
        \<longleftrightarrow> price item = Some s \<and> s \<noteq> []" for s
    by (auto simp: cs eq_js_and truthy_nullable reviews_or_zero nullable_simps)
  have rat: "El ''p'' ''furniture-rating'' [Num r, Txt ''U+2B50 ('', Num n, Txt '' reviews)'']
          \<in> set ?cs
        \<longleftrightarrow> product_rating item = Some r \<and> r \<noteq> 0 \<and>
            n = (case product_reviews item of None \<Rightarrow> 0 | Some k \<Rightarrow> k)" for r n
    by (auto simp: cs eq_js_and truthy_nullable reviews_or_zero nullable_simps)
  have dlv: "El ''p'' ''furniture-delivery'' [Txt s] \<in> set ?cs
        \<longleftrightarrow> delivery item = Some s \<and> s \<noteq> []" for s
    by (auto simp: cs eq_js_and truthy_nullable reviews_or_zero nullable_simps)
  have lnk: "Link (JStr l) [Txt ''View on Google Shopping U+2192''] \<in> set ?cs
        \<longleftrightarrow> google_link item = Some l \<and> l \<noteq> []" for l
    by (auto simp: cs eq_js_and truthy_nullable reviews_or_zero nullable_simps)
  have unread: "furniture_card API_URL
       (item_value (item\<lparr>direct_link := dl, store_rating := sr, store_reviews := sv,
                        position := pos, local_image_path := lp\<rparr>))
     = furniture_card API_URL (item_value item)"
    by (simp add: furniture_card_item_value)
  obtain cards where cards:
    "map_throwing (furniture_card API_URL) (map item_value (furniture_items results)) = Inr cards"
    "\<forall>card \<in> set cards. renderable card"
    "map Inr cards
       = map (\<lambda>item. furniture_card API_URL (item_value item)) (furniture_items results)"
    using furniture_cards_render [of API_URL "furniture_items results"] by blast
  have grid: "\<exists>cards. furniture_grid API_URL (map item_value (furniture_items results))
              = Inr (El ''div'' ''furniture-grid'' cards) \<and>
            map Inr cards
              = map (\<lambda>item. furniture_card API_URL (item_value item)) (furniture_items results)"
    using cards by (simp add: furniture_grid_def and_then_def)
  have whole: "\<exists>cards rest rendered.
      rendered =
        El ''div'' ''results-section''
          (rest @ [El ''div'' ''furniture-list''
                     [El ''h3'' [] [Txt ''Selected Furniture''],
                      El ''div'' ''furniture-grid'' cards]]) \<and>
      map Inr cards
        = map (\<lambda>item. furniture_card API_URL (item_value item)) (furniture_items results) \<and>
      ResultsSection API_URL results = Inr rendered \<and>
      react_render rendered = Inr rendered"
  proof (intro exI conjI)
    show "map Inr cards
        = map (\<lambda>item. furniture_card API_URL (item_value item)) (furniture_items results)"
      by (rule cards(3))
    show "ResultsSection API_URL results =
      Inr (El ''div'' ''results-section''
        ([El ''h2'' [] [Txt ''Final Design Results''],
          El ''div'' ''image-comparison''
            [El ''div'' ''image-container''
               [El ''h3'' [] [Txt ''Original Room''],
                Img [JStr API_URL, JStr (original_image results)] (JStr ''Original room'')],
             El ''div'' ''image-container''
               [El ''h3'' [] [Txt ''Designed Room''],
                Img [JStr API_URL, JStr (designed_image results)] (JStr ''Designed room'')]],
          El ''div'' ''design-stats''
            [El ''div'' ''stat-item''
               [El ''h4'' [] [Txt ''Total Cost Estimate''],
                El ''p'' ''stat-value'' [Txt ''$'', Fixed 2 (total_cost_estimate results)]],
             El ''div'' ''stat-item''
               [El ''h4'' [] [Txt ''Items Selected''],
                El ''p'' ''stat-value'' [Num (of_nat (length (furniture_items results)))]],
             El ''div'' ''stat-item''
               [El ''h4'' [] [Txt ''Design Time''],
                El ''p'' ''stat-value'' [Fixed 1 (completion_time results), Txt ''s'']]]]
         @ [El ''div'' ''furniture-list''
              [El ''h3'' [] [Txt ''Selected Furniture''],
               El ''div'' ''furniture-grid'' cards]]))"
      by (simp add: ResultsSection_def furniture_grid_def and_then_def cards(1))
    show "react_render
       (El ''div'' ''results-section''
        ([El ''h2'' [] [Txt ''Final Design Results''],
          El ''div'' ''image-comparison''
            [El ''div'' ''image-container''
               [El ''h3'' [] [Txt ''Original Room''],
                Img [JStr API_URL, JStr (original_image results)] (JStr ''Original room'')],
             El ''div'' ''image-container''
               [El ''h3'' [] [Txt ''Designed Room''],
                Img [JStr API_URL, JStr (designed_image results)] (JStr ''Designed room'')]],
          El ''div'' ''design-stats''
            [El ''div'' ''stat-item''
               [El ''h4'' [] [Txt ''Total Cost Estimate''],
                El ''p'' ''stat-value'' [Txt ''$'', Fixed 2 (total_cost_estimate results)]],
             El ''div'' ''stat-item''
               [El ''h4'' [] [Txt ''Items Selected''],
                El ''p'' ''stat-value'' [Num (of_nat (length (furniture_items results)))]],
             El ''div'' ''stat-item''
               [El ''h4'' [] [Txt ''Design Time''],
                El ''p'' ''stat-value'' [Fixed 1 (completion_time results), Txt ''s'']]]]
         @ [El ''div'' ''furniture-list''
              [El ''h3'' [] [Txt ''Selected Furniture''],
               El ''div'' ''furniture-grid'' cards]]))
      = Inr (El ''div'' ''results-section''
        ([El ''h2'' [] [Txt ''Final Design Results''],
          El ''div'' ''image-comparison''
            [El ''div'' ''image-container''
               [El ''h3'' [] [Txt ''Original Room''],
                Img [JStr API_URL, JStr (original_image results)] (JStr ''Original room'')],
             El ''div'' ''image-container''
               [El ''h3'' [] [Txt ''Designed Room''],
                Img [JStr API_URL, JStr (designed_image results)] (JStr ''Designed room'')]],
          El ''div'' ''design-stats''
            [El ''div'' ''stat-item''
               [El ''h4'' [] [Txt ''Total Cost Estimate''],
                El ''p'' ''stat-value'' [Txt ''$'', Fixed 2 (total_cost_estimate results)]],
             El ''div'' ''stat-item''
               [El ''h4'' [] [Txt ''Items Selected''],
                El ''p'' ''stat-value'' [Num (of_nat (length (furniture_items results)))]],
             El ''div'' ''stat-item''
               [El ''h4'' [] [Txt ''Design Time''],
                El ''p'' ''stat-value'' [Fixed 1 (completion_time results), Txt ''s'']]]]
         @ [El ''div'' ''furniture-list''
              [El ''h3'' [] [Txt ''Selected Furniture''],
               El ''div'' ''furniture-grid'' cards]]))"
      using cards(2) by (simp add: react_render_def)
  qed (rule refl)
  have nulls: "item_value (null_item t) =
     JObj [(''title'', JStr t), (''price'', JNull), (''google_link'', JNull),
           (''direct_link'', JNull), (''source'', JNull), (''delivery'', JNull),
           (''product_rating'', JNull), (''product_reviews'', JNull),
           (''store_rating'', JNull), (''store_reviews'', JNull), (''category'', JNull),
           (''position'', JNull), (''image_url'', JNull), (''local_image_path'', JNull)]"
    by (simp add: item_value_def null_item_def nullable_def)
  have null_card: "furniture_card API_URL (item_value (null_item t)) =
     Inr (El ''div'' ''furniture-card''
            [Empty, El ''h4'' [] [Txt t], Empty, Empty, Empty, Empty, Empty, Empty])"
    by (simp add: furniture_card_item_value js_and_def truthy_def nullable_simps null_item_def)
  show ?thesis
    by (intro conjI allI; fact)
qed

theorem furniture_item_fields_nullable_witness:
  "furniture_items two_item_results = [null_item ''Lamp'', sofa] \<and>
   ResultsSection api two_item_results =
     Inr (El ''div'' ''results-section''
       [El ''h2'' [] [Txt ''Final Design Results''],
        El ''div'' ''image-comparison''
          [El ''div'' ''image-container''
             [El ''h3'' [] [Txt ''Original Room''],
              Img [JStr api, JStr ''/uploads/a.png''] (JStr ''Original room'')],
           El ''div'' ''image-container''
             [El ''h3'' [] [Txt ''Designed Room''],
              Img [JStr api, JStr ''/uploads/b.png''] (JStr ''Designed room'')]],
        El ''div'' ''design-stats''
          [El ''div'' ''stat-item''
             [El ''h4'' [] [Txt ''Total Cost Estimate''],
              El ''p'' ''stat-value'' [Txt ''$'', Fixed 2 0]],
           El ''div'' ''stat-item''
             [El ''h4'' [] [Txt ''Items Selected''], El ''p'' ''stat-value'' [Num 2]],
           El ''div'' ''stat-item''
             [El ''h4'' [] [Txt ''Design Time''],
              El ''p'' ''stat-value'' [Fixed 1 1, Txt ''s'']]],
        El ''div'' ''furniture-list''
          [El ''h3'' [] [Txt ''Selected Furniture''],
           El ''div'' ''furniture-grid''
             [El ''div'' ''furniture-card''
                [Empty, El ''h4'' [] [Txt ''Lamp''], Empty, Empty, Empty, Empty, Empty, Empty],
              El ''div'' ''furniture-card''
                [El ''div'' ''furniture-image''
                   [Img [JStr api, JStr ''/images/sofa.png''] (JStr ''Sofa'')],
                 El ''h4'' [] [Txt ''Sofa''],
                 El ''p'' ''furniture-source'' [Txt ''from '', Txt ''Shop''],
                 El ''p'' ''furniture-category'' [Txt ''seating''],
                 El ''p'' ''furniture-price'' [Txt ''$499.00''],
                 El ''p'' ''furniture-rating''
                   [Num 4, Txt ''U+2B50 ('', Num 0, Txt '' reviews)''],
                 El ''p'' ''furniture-delivery'' [Txt ''Free delivery''],
                 Link (JStr ''https://g.example/sofa'')
                   [Txt ''View on Google Shopping U+2192'']]]]]) \<and>
   price sofa = Some ''$499.00'' \<and>
   El ''p'' ''furniture-price'' [Txt ''$499.00'']
     \<in> set (card_children (furniture_card api (item_value sofa)))"
proof -
  have p: "price sofa = Some ''$499.00''"
    by (simp add: sofa_def)
  from furniture_item_fields_nullable [of api sofa] p
  have shown: "El ''p'' ''furniture-price'' [Txt ''$499.00'']
     \<in> set (card_children (furniture_card api (item_value sofa)))"
    by simp
  have items: "furniture_items two_item_results = [null_item ''Lamp'', sofa]"
    by (simp add: two_item_results_def)
  have "ResultsSection api two_item_results = Inr (El ''div'' ''results-section''
       [El ''h2'' [] [Txt ''Final Design Results''],
        El ''div'' ''image-comparison''
          [El ''div'' ''image-container''
             [El ''h3'' [] [Txt ''Original Room''],
              Img [JStr api, JStr ''/uploads/a.png''] (JStr ''Original room'')],
           El ''div'' ''image-container''
             [El ''h3'' [] [Txt ''Designed Room''],
              Img [JStr api, JStr ''/uploads/b.png''] (JStr ''Designed room'')]],
        El ''div'' ''design-stats''
          [El ''div'' ''stat-item''
             [El ''h4'' [] [Txt ''Total Cost Estimate''],
              El ''p'' ''stat-value'' [Txt ''$'', Fixed 2 0]],
           El ''div'' ''stat-item''
             [El ''h4'' [] [Txt ''Items Selected''], El ''p'' ''stat-value'' [Num 2]],
           El ''div'' ''stat-item''
             [El ''h4'' [] [Txt ''Design Time''],
              El ''p'' ''stat-value'' [Fixed 1 1, Txt ''s'']]],
        El ''div'' ''furniture-list''
          [El ''h3'' [] [Txt ''Selected Furniture''],
           El ''div'' ''furniture-grid''
             [El ''div'' ''furniture-card''
                [Empty, El ''h4'' [] [Txt ''Lamp''], Empty, Empty, Empty, Empty, Empty, Empty],
              El ''div'' ''furniture-card''
                [El ''div'' ''furniture-image''
                   [Img [JStr api, JStr ''/images/sofa.png''] (JStr ''Sofa'')],
                 El ''h4'' [] [Txt ''Sofa''],
                 El ''p'' ''furniture-source'' [Txt ''from '', Txt ''Shop''],
                 El ''p'' ''furniture-category'' [Txt ''seating''],
                 El ''p'' ''furniture-price'' [Txt ''$499.00''],
                 El ''p'' ''furniture-rating''
                   [Num 4, Txt ''U+2B50 ('', Num 0, Txt '' reviews)''],
                 El ''p'' ''furniture-delivery'' [Txt ''Free delivery''],
                 Link (JStr ''https://g.example/sofa'')
                   [Txt ''View on Google Shopping U+2192'']]]]])"
    by (simp add: ResultsSection_def furniture_grid_def and_then_def items
        furniture_card_item_value js_and_def js_or_def truthy_def truthy_str_def
        null_item_def sofa_def some_results_def two_item_results_def nullable_def)
  with items p shown show ?thesis by simp
qed

subsection \<open>AgentProgress on any status\<close>

text \<open>
  The parts of claim C10 that hold: without a status the placeholder is rendered; a
  status string that is neither one of the seven keys nor a property of
  \<^verbatim>\<open>Object.prototype\<close> gets the hourglass; the errors section is there exactly when
  the list of errors is not empty; and the component renders for every status string
  but \<^verbatim>\<open>__proto__\<close>.
\<close>

lemma AgentProgress_sound_parts:
  "AgentProgress None =
     El ''div'' ''agent-progress'' [El ''h2'' [] [Txt ''Waiting for agent to start...'']]"
  "s \<notin> set (map fst statusEmoji) \<Longrightarrow> s \<notin> set (map fst Object_prototype) \<Longrightarrow>
     status_emoji s = Txt hourglass"
  "errors_section st = Empty \<longleftrightarrow> errors st = []"
  "status st \<noteq> ''__proto__'' \<Longrightarrow> renderable (AgentProgress (Some st))"
proof -
  show "AgentProgress None =
     El ''div'' ''agent-progress'' [El ''h2'' [] [Txt ''Waiting for agent to start...'']]"
    by (simp add: AgentProgress_def)
  show "status_emoji s = Txt hourglass"
    if "s \<notin> set (map fst statusEmoji)" and "s \<notin> set (map fst Object_prototype)"
    using that
    by (simp add: status_emoji_def get_property_def or_default_def child_of_def
        map_of_eq_None_iff [THEN iffD2])
  show "errors_section st = Empty \<longleftrightarrow> errors st = []"
    by (simp add: errors_section_def)
  show "renderable (AgentProgress (Some st))" if "status st \<noteq> ''__proto__''"
    using that
    by (auto simp: AgentProgress_def activity_log_def errors_section_def message_item_def
        status_emoji_def get_property_def statusEmoji_def Object_prototype_def
        or_default_def child_of_def split: if_splits)
qed

text \<open>
  Claim C10 does not hold of the code. The lookup \<^verbatim>\<open>statusEmoji[status.status]\<close> also
  finds what the object literal inherits: for the status \<^verbatim>\<open>constructor\<close>, which is
  not one of the seven names, it yields a function, which is truthy, so that the
  hourglass is not taken and the span stays empty; for the status \<^verbatim>\<open>__proto__\<close> it
  yields an object, and React throws when it meets an object as a child.
\<close>

theorem status_emoji_inherited_key:
  "''constructor'' \<notin> set (map fst statusEmoji) \<and>
   status_emoji ''constructor'' = FunChild \<and>
   status_emoji ''constructor'' \<noteq> Txt hourglass \<and>
   ''__proto__'' \<notin> set (map fst statusEmoji) \<and>
   status_emoji ''__proto__'' = ObjChild \<and>
   react_render (AgentProgress (Some (status_of ''__proto__'')))
     = Inl Objects_are_not_valid_as_a_React_child"
  by (simp add: status_emoji_def get_property_def statusEmoji_def Object_prototype_def
      or_default_def child_of_def react_render_def AgentProgress_def status_of_def)

subsection \<open>Progress of a session\<close>

lemma run_stage_status_progress:
  "sess_status (run_stage ev s) =
     (case active_stage (sess_status s) of
        None \<Rightarrow> sess_status s
      | Some stg \<Rightarrow> (case snd ev of Succeeded out \<Rightarrow> next_state stg | Failed err \<Rightarrow> Error))"
  "sess_progress_percentage (run_stage ev s) =
     (case active_stage (sess_status s) of
        None \<Rightarrow> sess_progress_percentage s
      | Some stg \<Rightarrow> (case snd ev of Succeeded out \<Rightarrow> stage_target stg
                     | Failed err \<Rightarrow> sess_progress_percentage s))"
  by (simp_all add: run_stage_def Let_def merge_output_def
      split: option.split stage_result.split stage.split)

lemma on_track_run_stage: "on_track s \<Longrightarrow> on_track (run_stage ev s)"
  by (cases "sess_status s"; cases "snd ev")
     (simp_all add: on_track_def run_stage_status_progress)

lemma progress_step:
  "on_track s \<Longrightarrow> sess_progress_percentage s \<le> sess_progress_percentage (run_stage ev s)"
  by (cases "sess_status s"; cases "snd ev")
     (simp_all add: on_track_def run_stage_status_progress)

lemma progress_later:
  "on_track s \<Longrightarrow> s' \<in> set (snapshots s evs) \<Longrightarrow>
   sess_progress_percentage s \<le> sess_progress_percentage s'"
proof (induction evs arbitrary: s)
  case Nil
  then show ?case by simp
next
  case (Cons ev evs)
  from Cons.prems(2) consider "s' = s" | "s' \<in> set (snapshots (run_stage ev s) evs)"
    by auto
  then show ?case
  proof cases
    case 1
    then show ?thesis by simp
  next
    case 2
    from Cons.IH [OF on_track_run_stage [OF Cons.prems(1)] 2]
      progress_step [OF Cons.prems(1), of ev]
    show ?thesis by simp
  qed
qed

lemma progress_sorted:
  "on_track s \<Longrightarrow> sorted (map sess_progress_percentage (snapshots s evs))"
proof (induction evs arbitrary: s)
  case Nil
  then show ?case by simp
next
  case (Cons ev evs)
  have "sess_progress_percentage s \<le> sess_progress_percentage s'"
    if "s' \<in> set (snapshots (run_stage ev s) evs)" for s'
    using progress_later [OF on_track_run_stage [OF Cons.prems] that]
      progress_step [OF Cons.prems, of ev]
    by simp
  moreover have "sorted (map sess_progress_percentage (snapshots (run_stage ev s) evs))"
    by (rule Cons.IH [OF on_track_run_stage [OF Cons.prems]])
  ultimately show ?case by auto
qed

lemma error_frozen: "sess_status s = Error \<Longrightarrow> run_stage ev s = s"
  by (simp add: run_stage_def)

lemma error_snapshots: "sess_status s = Error \<Longrightarrow> set (snapshots s evs) = {s}"
  by (induction evs) (simp_all add: error_frozen)

text \<open>
  Claim C4. For a session that was created and started, the progress percentage never
  decreases from one status read to the next, whatever the stage executors answer; and
  a session whose status is \<open>Error\<close> executes no further stage: every later read
  returns the same session, with the same progress and the same completed steps.
\<close>

theorem progress_monotone_and_frozen_on_error:
  "(\<forall>s1. start (create_session sid img) = Inr s1 \<longrightarrow>
      sorted (map sess_progress_percentage (create_session sid img # snapshots s1 evs))) \<and>
   (\<forall>s. sess_status s = Error \<longrightarrow> run_stage ev s = s \<and> set (snapshots s evs) = {s})"
proof -
  have "sorted (map sess_progress_percentage (create_session sid img # snapshots s1 evs))"
    if "start (create_session sid img) = Inr s1" for s1
  proof -
    from that have "s1 = (create_session sid img)
        \<lparr>sess_status := Analyzing, sess_current_step := stage_name Analyze\<rparr>"
      by (simp add: start_def create_session_def)
    then have "on_track s1"
      by (simp add: on_track_def create_session_def)
    then have "sorted (map sess_progress_percentage (snapshots s1 evs))"
      by (rule progress_sorted)
    moreover have "sess_progress_percentage (create_session sid img) = 0"
      by (simp add: create_session_def)
    ultimately show ?thesis by simp
  qed
  then show ?thesis by (simp add: error_frozen error_snapshots)
qed

theorem progress_monotone_and_frozen_on_error_witness:
  "start (create_session ''s1'' ''a.png'') = Inr started_session \<and>
   map sess_progress_percentage (snapshots started_session failing_run) = [0, 25, 50, 50, 50] \<and>
   sorted (map sess_progress_percentage
             (create_session ''s1'' ''a.png'' # snapshots started_session failing_run)) \<and>
   sess_status failed_session = Error \<and>
   sess_steps_completed failed_session = [''analyze'', ''plan''] \<and>
   run_stage (4, Succeeded ''late answer'') failed_session = failed_session \<and>
   set (snapshots failed_session failing_run) = {failed_session}"
proof -
  have st: "start (create_session ''s1'' ''a.png'') = Inr started_session"
    by (simp add: start_def started_session_def create_session_def)
  have err: "sess_status failed_session = Error"
    by (simp add: failed_session_def started_session_def create_session_def
        run_stage_status_progress)
  have steps: "sess_steps_completed failed_session = [''analyze'', ''plan'']"
    by (simp add: failed_session_def started_session_def create_session_def run_stage_def
        merge_output_def Let_def)
  have prog: "map sess_progress_percentage (snapshots started_session failing_run)
      = [0, 25, 50, 50, 50]"
    by (simp add: failing_run_def started_session_def create_session_def
        run_stage_status_progress)
  from progress_monotone_and_frozen_on_error
         [of "''s1''" "''a.png''" failing_run "(4, Succeeded ''late answer'')"]
       st err
  have "sorted (map sess_progress_percentage
             (create_session ''s1'' ''a.png'' # snapshots started_session failing_run)) \<and>
        run_stage (4, Succeeded ''late answer'') failed_session = failed_session \<and>
        set (snapshots failed_session failing_run) = {failed_session}"
    by blast
  with st err steps prog show ?thesis by simp
qed


end
